theory Spec2Isabelle
  imports Complex_Main "HOL-Library.Word"
begin

section \<open>Proto-array fork choice: the ForkChoice layer\<close>

text \<open>
  The embedding follows \<^verbatim>\<open>beacon-chain/forkchoice/protoarray/store.go\<close>.
  A \<^verbatim>\<open>uint64\<close> is a 64-bit word, and so is an \<^verbatim>\<open>int64\<close>, read with \<open>sint\<close>.
  A \<^verbatim>\<open>[32]byte\<close> root is a 256-bit word (store.go only copies roots and compares them
  for equality), and \<^verbatim>\<open>params.BeaconConfig().ZeroHash\<close> is the all-zero root.
  Lengths of slices are natural numbers; Go keeps them below \<open>2 ^ 63\<close>, so
  \<^verbatim>\<open>uint64(len(xs))\<close> is the length itself and \<^verbatim>\<open>index >= uint64(len(xs))\<close> is
  \<open>length xs \<le> unat index\<close>.
  Tracing spans and the Prometheus counters \<^verbatim>\<open>calledHeadCount\<close> and
  \<^verbatim>\<open>processedAttestationCount\<close> are not part of the ForkChoice value and are left out.
\<close>

type_synonym uint64 = "64 word"
type_synonym int64 = "64 word"
type_synonym root = "256 word"

definition ZeroHash :: root where
  "ZeroHash = 0"

definition defaultPruneThreshold :: uint64 where
  "defaultPruneThreshold = 256"

text \<open>
  The fields of \<^verbatim>\<open>Vote\<close>, \<^verbatim>\<open>Store\<close> and \<^verbatim>\<open>ForkChoice\<close> are the ones
  store.go reads and writes.
\<close>

record Vote =
  currentRoot :: root
  nextRoot :: root
  nextEpoch :: uint64

text \<open>
  Modelled from the spec: the declaration of \<^verbatim>\<open>Node\<close> is not among the sources.
  Section 3 of the specification lists the fields of a block node: slot, root, an optional
  parent index, justified and finalized epoch, a signed 64-bit weight, an optional best-child
  index and an optional best-descendant index.
\<close>

record Node =
  node_slot :: uint64
  node_root :: root
  parent_index :: "nat option"
  node_justified_epoch :: uint64
  node_finalized_epoch :: uint64
  weight :: int64
  best_child_index :: "nat option"
  best_descendant_index :: "nat option"

record Store =
  justifiedEpoch :: uint64
  finalizedEpoch :: uint64
  finalizedRoot :: root
  nodes :: "Node list"
  nodeIndices :: "root \<rightharpoonup> uint64"
  pruneThreshold :: uint64

record ForkChoice =
  store :: Store
  balances :: "uint64 list"
  votes :: "Vote list"

subsection \<open>New\<close>

definition New :: "uint64 \<Rightarrow> uint64 \<Rightarrow> root \<Rightarrow> ForkChoice" where
  "New justifiedEpoch' finalizedEpoch' finalizedRoot' =
     (let s = \<lparr>justifiedEpoch = justifiedEpoch',
               finalizedEpoch = finalizedEpoch',
               finalizedRoot = finalizedRoot',
               nodes = [],
               nodeIndices = Map.empty,
               pruneThreshold = defaultPruneThreshold\<rparr>;
          b = [];
          v = []
      in \<lparr>store = s, balances = b, votes = v\<rparr>)"

subsection \<open>ProcessAttestation\<close>

text \<open>
  The inner loop \<^verbatim>\<open>for index >= uint64(len(f.votes)) { f.votes = append(...) }\<close>.
  The appended \<^verbatim>\<open>Vote\<close> literal names both roots; \<^verbatim>\<open>nextEpoch\<close> takes Go's zero value.
\<close>

function growVotes :: "uint64 \<Rightarrow> Vote list \<Rightarrow> Vote list" where
  "growVotes index vs =
     (if length vs \<le> unat index
      then growVotes index
             (vs @ [\<lparr>currentRoot = ZeroHash, nextRoot = ZeroHash, nextEpoch = 0\<rparr>])
      else vs)"
  by pat_completeness auto
termination
  by (relation "measure (\<lambda>(index, vs). Suc (unat index) - length vs)") auto

declare growVotes.simps [simp del]

text \<open>One iteration of the outer loop, for one validator index.\<close>

definition processIndex :: "root \<Rightarrow> uint64 \<Rightarrow> Vote list \<Rightarrow> uint64 \<Rightarrow> Vote list" where
  "processIndex blockRoot targetEpoch vs0 index =
     (let vs = growVotes index vs0;
          newVote = (nextRoot (vs ! unat index) = ZeroHash \<and>
                     currentRoot (vs ! unat index) = ZeroHash)
      in if newVote \<or> nextEpoch (vs ! unat index) < targetEpoch
         then vs[unat index := (vs ! unat index)\<lparr>nextEpoch := targetEpoch, nextRoot := blockRoot\<rparr>]
         else vs)"

text \<open>The outer loop \<^verbatim>\<open>for _, index := range validatorIndices\<close>.\<close>

fun processIndices :: "root \<Rightarrow> uint64 \<Rightarrow> Vote list \<Rightarrow> uint64 list \<Rightarrow> Vote list" where
  "processIndices blockRoot targetEpoch vs [] = vs"
| "processIndices blockRoot targetEpoch vs (index # rest) =
     processIndices blockRoot targetEpoch (processIndex blockRoot targetEpoch vs index) rest"

definition ProcessAttestation :: "ForkChoice \<Rightarrow> uint64 list \<Rightarrow> root \<Rightarrow> uint64 \<Rightarrow> ForkChoice" where
  "ProcessAttestation f validatorIndices blockRoot targetEpoch =
     f\<lparr>votes := processIndices blockRoot targetEpoch (votes f) validatorIndices\<rparr>"

subsection \<open>Head\<close>

text \<open>
  Errors are values. \<open>Wrap\<close> is \<^verbatim>\<open>errors.Wrap(err, msg)\<close>; the other constructors are the
  failure kinds the specification names for the store (sections 4.1, 4.3 and 7).
\<close>

datatype error =
    UnknownJustifiedRoot
  | InvalidBestDescendant
  | DeltaLengthMismatch
  | IndexOverflow
  | NegativeWeight
  | Wrap error string

text \<open>
  \<^verbatim>\<open>Head\<close> is in store.go; its three callees \<^verbatim>\<open>computeDeltas\<close>,
  \<^verbatim>\<open>Store.applyWeightChanges\<close> and \<^verbatim>\<open>Store.head\<close> are not among the sources and are
  the parameters \<open>cdf\<close>, \<open>awcf\<close> and \<open>hdf\<close>.
  \<^verbatim>\<open>computeDeltas\<close> is handed the map \<^verbatim>\<open>f.store.nodeIndices\<close> and the slices
  \<^verbatim>\<open>f.votes\<close>, \<^verbatim>\<open>f.balances\<close> and \<^verbatim>\<open>newBalances\<close>, and a Go callee can write through
  each of them, also before it fails. So \<open>cdf\<close> yields the map and the three slices as it
  leaves them, beside what it returns: an error, or the deltas and the new votes.
  \<open>awcf\<close> and \<open>hdf\<close> are methods of the store and work on it in place: each yields the
  store it leaves behind together with what it returns (for \<open>awcf\<close> its error, \<open>None\<close> for
  \<^verbatim>\<open>nil\<close>). The result of \<open>Head\<close> is the ForkChoice after the call and the returned root
  or error.
\<close>

definition Head ::
  "((root \<rightharpoonup> uint64) \<Rightarrow> Vote list \<Rightarrow> uint64 list \<Rightarrow> uint64 list
      \<Rightarrow> ((root \<rightharpoonup> uint64) \<times> Vote list \<times> uint64 list \<times> uint64 list)
          \<times> (error + (int64 list \<times> Vote list)))
   \<Rightarrow> (Store \<Rightarrow> uint64 \<Rightarrow> uint64 \<Rightarrow> int64 list \<Rightarrow> Store \<times> error option)
   \<Rightarrow> (Store \<Rightarrow> root \<Rightarrow> Store \<times> (error + root))
   \<Rightarrow> ForkChoice \<Rightarrow> uint64 \<Rightarrow> root \<Rightarrow> uint64 list \<Rightarrow> uint64
   \<Rightarrow> ForkChoice \<times> (error + root)" where
  "Head cdf awcf hdf f finalizedEpoch' justifiedRoot justifiedStateBalances justifiedEpoch' =
     (let newBalances = justifiedStateBalances in
      case cdf (nodeIndices (store f)) (votes f) (balances f) newBalances of
        ((indicesLeft, votesLeft, balancesLeft, newBalancesLeft), returned) \<Rightarrow>
          (let f0 = f\<lparr>store := (store f)\<lparr>nodeIndices := indicesLeft\<rparr>,
                      votes := votesLeft, balances := balancesLeft\<rparr> in
           case returned of
             Inl err \<Rightarrow> (f0, Inl (Wrap err ''Could not compute deltas''))
           | Inr (deltas, newVotes) \<Rightarrow>
               (let f1 = f0\<lparr>votes := newVotes\<rparr> in
                case awcf (store f1) justifiedEpoch' finalizedEpoch' deltas of
                  (s, Some err) \<Rightarrow>
                    (f1\<lparr>store := s\<rparr>, Inl (Wrap err ''Could not apply score changes''))
                | (s, None) \<Rightarrow>
                    (let f2 = f1\<lparr>store := s, balances := newBalancesLeft\<rparr> in
                     case hdf (store f2) justifiedRoot of
                       (s', root_or_err) \<Rightarrow> (f2\<lparr>store := s'\<rparr>, root_or_err)))))"

subsection \<open>The callees of Head, from the specification\<close>

text \<open>
  Modelled from the spec: \<^verbatim>\<open>computeDeltas\<close> is not among the sources. Section 4.2:
  the deltas start as zeros, one per entry of the index map; for each validator \<open>v\<close> up to
  the longer of the vote vector and the new balances, if its current and next root differ or
  its old and new balance differ, the old balance is subtracted from the delta of the current
  root and the new balance added to the delta of the next root, each if the root is mapped;
  the current root is promoted to the next root in the returned vote vector. Unknown roots are
  skipped, a missing balance is zero, and no failure is named, so the result is always
  \<open>Inr\<close>. A validator beyond the vote vector has the untouched vote; the returned vector
  keeps the length of the given one. A mapped index beyond the deltas is skipped as well.
  The promotion is made in the returned vector: the map and the slices handed in are left
  as they are.
\<close>

definition balanceAt :: "uint64 list \<Rightarrow> nat \<Rightarrow> uint64" where
  "balanceAt bs v = (if v < length bs then bs ! v else 0)"

definition addDelta :: "(root \<rightharpoonup> uint64) \<Rightarrow> root \<Rightarrow> int64 \<Rightarrow> int64 list \<Rightarrow> int64 list" where
  "addDelta indices r x deltas =
     (case indices r of
        None \<Rightarrow> deltas
      | Some i \<Rightarrow> if unat i < length deltas then deltas[unat i := deltas ! unat i + x] else deltas)"

definition deltaStep ::
  "(root \<rightharpoonup> uint64) \<Rightarrow> Vote list \<Rightarrow> uint64 list \<Rightarrow> uint64 list \<Rightarrow> int64 list \<Rightarrow> nat \<Rightarrow> int64 list" where
  "deltaStep indices vs oldBalances newBalances deltas v =
     (let vote = (if v < length vs then vs ! v
                  else \<lparr>currentRoot = ZeroHash, nextRoot = ZeroHash, nextEpoch = 0\<rparr>)
      in if currentRoot vote \<noteq> nextRoot vote \<or> balanceAt oldBalances v \<noteq> balanceAt newBalances v
         then addDelta indices (nextRoot vote) (balanceAt newBalances v)
                (addDelta indices (currentRoot vote) (- balanceAt oldBalances v) deltas)
         else deltas)"

definition computeDeltas ::
  "(root \<rightharpoonup> uint64) \<Rightarrow> Vote list \<Rightarrow> uint64 list \<Rightarrow> uint64 list
     \<Rightarrow> ((root \<rightharpoonup> uint64) \<times> Vote list \<times> uint64 list \<times> uint64 list)
         \<times> (error + (int64 list \<times> Vote list))" where
  "computeDeltas indices vs oldBalances newBalances =
     ((indices, vs, oldBalances, newBalances),
      Inr (foldl (deltaStep indices vs oldBalances newBalances)
             (replicate (card (dom indices)) 0)
             [0 ..< max (length vs) (length newBalances)],
           map (\<lambda>vote. vote\<lparr>currentRoot := nextRoot vote\<rparr>) vs))"

text \<open>
  Modelled from the spec: the best-child policy of section 4.4, which
  \<^verbatim>\<open>applyWeightChanges\<close> and \<^verbatim>\<open>head\<close> use, is not among the sources. A node is
  viable iff its justified and finalized epochs equal the store's, or the store has no
  finalized checkpoint yet (finalized epoch 0). The best descendant of a node defaults to the
  node itself. Given the parent's current best child \<open>b\<close> and the candidate \<open>c\<close>: with no
  \<open>b\<close>, a viable \<open>c\<close> becomes the best child and an unviable one changes nothing; with both
  viable, the one whose best descendant is heavier wins, a tie going to the larger
  best-descendant root read as a big-endian integer; if only \<open>c\<close> is viable it replaces \<open>b\<close>;
  if only \<open>b\<close> is viable it stays; if neither is, the best child is cleared and the best
  descendant is the parent itself. An index outside the node vector is the failure
  "index overflow".
\<close>

definition viable :: "Store \<Rightarrow> Node \<Rightarrow> bool" where
  "viable s c \<longleftrightarrow>
     (node_justified_epoch c = justifiedEpoch s \<and> node_finalized_epoch c = finalizedEpoch s)
     \<or> finalizedEpoch s = 0"

definition nodeAt :: "Node list \<Rightarrow> nat \<Rightarrow> error + Node" where
  "nodeAt ns i = (if i < length ns then Inr (ns ! i) else Inl IndexOverflow)"

definition bestDescendantOf :: "Node list \<Rightarrow> nat \<Rightarrow> error + (nat \<times> Node)" where
  "bestDescendantOf ns i =
     (case nodeAt ns i of
        Inl e \<Rightarrow> Inl e
      | Inr n \<Rightarrow>
          (let bd = (case best_descendant_index n of None \<Rightarrow> i | Some d \<Rightarrow> d)
           in case nodeAt ns bd of Inl e \<Rightarrow> Inl e | Inr m \<Rightarrow> Inr (bd, m)))"

definition setBest :: "Node list \<Rightarrow> nat \<Rightarrow> nat option \<Rightarrow> nat \<Rightarrow> Node list" where
  "setBest ns p child descendant =
     ns[p := (ns ! p)\<lparr>best_child_index := child, best_descendant_index := Some descendant\<rparr>]"

definition updateBestChild :: "Store \<Rightarrow> Node list \<Rightarrow> nat \<Rightarrow> nat \<Rightarrow> error + Node list" where
  "updateBestChild s ns p c =
     (case nodeAt ns p of
        Inl e \<Rightarrow> Inl e
      | Inr parent \<Rightarrow>
     (case bestDescendantOf ns c of
        Inl e \<Rightarrow> Inl e
      | Inr (cd, cdn) \<Rightarrow>
     (case best_child_index parent of
        None \<Rightarrow> if viable s (ns ! c) then Inr (setBest ns p (Some c) cd) else Inr ns
      | Some b \<Rightarrow>
     (case bestDescendantOf ns b of
        Inl e \<Rightarrow> Inl e
      | Inr (bd, bdn) \<Rightarrow>
          if viable s (ns ! c) \<and> viable s (ns ! b) then
            (if sint (weight bdn) < sint (weight cdn)
                \<or> (weight bdn = weight cdn \<and> node_root bdn \<le> node_root cdn)
             then Inr (setBest ns p (Some c) cd)
             else Inr (setBest ns p (Some b) bd))
          else if viable s (ns ! c) then Inr (setBest ns p (Some c) cd)
          else if viable s (ns ! b) then Inr ns
          else Inr (setBest ns p None p)))))"

text \<open>
  Modelled from the spec: \<^verbatim>\<open>Store.applyWeightChanges\<close> is not among the sources.
  Section 4.1: the deltas must be as many as the nodes; the nodes are visited in descending
  index order; the delta of a node is added to its weight, which must not become negative;
  a node with a parent adds the same delta to the parent's delta and is considered as the
  parent's best child; the store's justified and finalized epochs are raised to the given
  ones if those are higher. \<open>applyLoop k\<close> visits the nodes \<open>k - 1, \<dots>, 0\<close>. Section 5
  allows no partial mutation, so a failing call leaves the store as it was.
\<close>

fun applyLoop :: "nat \<Rightarrow> Store \<Rightarrow> Node list \<Rightarrow> int64 list \<Rightarrow> error + Node list" where
  "applyLoop 0 s ns deltas = Inr ns"
| "applyLoop (Suc i) s ns deltas =
     (let n = ns ! i; w = weight n + deltas ! i in
      if sint w < 0 then Inl NegativeWeight
      else
        (let ns1 = ns[i := n\<lparr>weight := w\<rparr>] in
         case parent_index n of
           None \<Rightarrow> applyLoop i s ns1 deltas
         | Some p \<Rightarrow>
             if length deltas \<le> p then Inl IndexOverflow
             else
               (case updateBestChild s ns1 p i of
                  Inl e \<Rightarrow> Inl e
                | Inr ns2 \<Rightarrow> applyLoop i s ns2 (deltas[p := deltas ! p + deltas ! i]))))"

definition applyWeightChanges ::
  "Store \<Rightarrow> uint64 \<Rightarrow> uint64 \<Rightarrow> int64 list \<Rightarrow> Store \<times> error option" where
  "applyWeightChanges s justifiedEpoch' finalizedEpoch' deltas =
     (if length deltas \<noteq> length (nodes s) then (s, Some DeltaLengthMismatch)
      else
        (let s1 = s\<lparr>justifiedEpoch := max (justifiedEpoch s) justifiedEpoch',
                    finalizedEpoch := max (finalizedEpoch s) finalizedEpoch'\<rparr>
         in case applyLoop (length (nodes s1)) s1 (nodes s1) deltas of
              Inl e \<Rightarrow> (s, Some e)
            | Inr ns \<Rightarrow> (s1\<lparr>nodes := ns\<rparr>, None)))"

text \<open>
  Modelled from the spec: \<^verbatim>\<open>Store.head\<close> is not among the sources. Section 4.3: look
  the justified root up in the index map and fail with \<open>UnknownJustifiedRoot\<close> if it is
  absent; read the node's best descendant, the node itself by default; fail with
  \<open>InvalidBestDescendant\<close> unless that node is viable; return its root. The store is only
  read.
\<close>

definition head :: "Store \<Rightarrow> root \<Rightarrow> Store \<times> (error + root)" where
  "head s justifiedRoot =
     (s,
      case nodeIndices s justifiedRoot of
        None \<Rightarrow> Inl UnknownJustifiedRoot
      | Some i \<Rightarrow>
          (case bestDescendantOf (nodes s) (unat i) of
             Inl e \<Rightarrow> Inl e
           | Inr (bd, n) \<Rightarrow> if viable s n then Inr (node_root n) else Inl InvalidBestDescendant))"

subsection \<open>Prune\<close>

text \<open>
  store.go declares \<^verbatim>\<open>Prune\<close> on \<^verbatim>\<open>ForkChoice\<close> twice (lines 94 and 98); the second
  declaration is \<open>Prune'\<close> here. \<^verbatim>\<open>Store.prune\<close> is not among the sources: it is the
  parameter \<open>prune\<close>, any function from the context, the store and the root to the store it
  leaves behind and the error it returns (\<open>None\<close> for \<^verbatim>\<open>nil\<close>).
\<close>

definition Prune ::
  "('ctx \<Rightarrow> Store \<Rightarrow> root \<Rightarrow> Store \<times> 'err option) \<Rightarrow> 'ctx \<Rightarrow> ForkChoice \<Rightarrow> root
     \<Rightarrow> ForkChoice \<times> 'err option" where
  "Prune prune ctx f finalizedRoot' =
     (case prune ctx (store f) finalizedRoot' of (s, err) \<Rightarrow> (f\<lparr>store := s\<rparr>, err))"

definition Prune' ::
  "('ctx \<Rightarrow> Store \<Rightarrow> root \<Rightarrow> Store \<times> 'err option) \<Rightarrow> 'ctx \<Rightarrow> ForkChoice \<Rightarrow> root
     \<Rightarrow> ForkChoice \<times> 'err option" where
  "Prune' prune ctx f finalizedRoot' =
     (case prune ctx (store f) finalizedRoot' of (s, err) \<Rightarrow> (f\<lparr>store := s\<rparr>, err))"

section \<open>Slashing protection in the validator client\<close>

text \<open>
  \<^verbatim>\<open>markAttestationForTargetEpoch\<close> and \<^verbatim>\<open>safeTargetToSource\<close> (lines 846 to 872 of
  the same file). The constants \<^verbatim>\<open>FarFutureEpoch\<close> and \<^verbatim>\<open>WeakSubjectivityPeriod\<close> of
  \<^verbatim>\<open>params.BeaconConfig()\<close> are not among the sources; the configuration is a parameter.
  The argument \<^verbatim>\<open>history\<close> is a pointer and may be \<^verbatim>\<open>nil\<close>: it is an option, and
  reading a field through \<open>None\<close> panics. The map of a history may be \<^verbatim>\<open>nil\<close> too, as it
  is in the zero value of the struct: this is \<open>None\<close> as well.
  Reading a Go map at a missing key gives 0, and so does reading a nil map; assigning into a
  nil map panics. With Go's 64-bit \<^verbatim>\<open>int\<close>, \<^verbatim>\<open>int(x)\<close> of a \<^verbatim>\<open>uint64\<close> keeps the 64
  bits and reads them as two's complement, and the subtraction of two such values wraps, so
  \<^verbatim>\<open>int(a) < int(b) - int(c)\<close> is \<open>sint a < sint (b - c)\<close>.
  \<^verbatim>\<open>%\<close> by zero panics; in \<^verbatim>\<open>m[i%w] = v\<close> the index is evaluated before the assignment.
\<close>

record BeaconChainConfig =
  FarFutureEpoch :: uint64
  WeakSubjectivityPeriod :: uint64

record AttestationHistory =
  TargetToSource :: "(uint64 \<rightharpoonup> uint64) option"
  LatestEpochWritten :: uint64

datatype panic = NilPointerDereference | IntegerDivideByZero | AssignmentToNilMap

definition mapIndex :: "(uint64 \<rightharpoonup> uint64) option \<Rightarrow> uint64 \<Rightarrow> uint64" where
  "mapIndex m k =
     (case m of
        None \<Rightarrow> 0
      | Some entries \<Rightarrow> (case entries k of None \<Rightarrow> 0 | Some v \<Rightarrow> v))"

definition safeTargetToSource ::
  "BeaconChainConfig \<Rightarrow> AttestationHistory option \<Rightarrow> uint64 \<Rightarrow> panic + uint64" where
  "safeTargetToSource cfg history targetEpoch =
     (let wsPeriod = WeakSubjectivityPeriod cfg in
      case history of
        None \<Rightarrow> Inl NilPointerDereference
      | Some h \<Rightarrow>
          if LatestEpochWritten h < targetEpoch
             \<or> sint targetEpoch < sint (LatestEpochWritten h - wsPeriod)
          then Inr (FarFutureEpoch cfg)
          else if wsPeriod = 0 then Inl IntegerDivideByZero
          else Inr (mapIndex (TargetToSource h) (targetEpoch mod wsPeriod)))"

text \<open>
  The loop \<^verbatim>\<open>for i := LatestEpochWritten + 1; i < targetEpoch && i <= maxToWrite; i++\<close>,
  from the value \<open>i\<close> of its counter on.
\<close>

function overwriteTargets ::
  "BeaconChainConfig \<Rightarrow> uint64 \<Rightarrow> uint64 \<Rightarrow> uint64 \<Rightarrow> (uint64 \<rightharpoonup> uint64) option
     \<Rightarrow> panic + (uint64 \<rightharpoonup> uint64) option" where
  "overwriteTargets cfg targetEpoch maxToWrite i m =
     (if i < targetEpoch \<and> i \<le> maxToWrite
      then if WeakSubjectivityPeriod cfg = 0 then Inl IntegerDivideByZero
           else (case m of
                   None \<Rightarrow> Inl AssignmentToNilMap
                 | Some entries \<Rightarrow>
                     overwriteTargets cfg targetEpoch maxToWrite (i + 1)
                       (Some (entries(i mod WeakSubjectivityPeriod cfg \<mapsto> FarFutureEpoch cfg))))
      else Inr m)"
  by pat_completeness auto
termination
proof (relation "measure (\<lambda>(cfg, targetEpoch, maxToWrite, i, m). unat targetEpoch - unat i)")
  show "wf (measure (\<lambda>(cfg, targetEpoch, maxToWrite, i, m). unat targetEpoch - unat i))"
    by simp
next
  fix cfg :: BeaconChainConfig and targetEpoch maxToWrite i :: uint64
    and m :: "(uint64 \<rightharpoonup> uint64) option" and entries :: "uint64 \<rightharpoonup> uint64"
  assume "i < targetEpoch \<and> i \<le> maxToWrite"
  then have less: "unat i < unat targetEpoch"
    by (simp add: word_less_nat_alt)
  have "unat targetEpoch < 2 ^ 64"
    using unsigned_less [of targetEpoch, where 'a = nat] by simp
  with less have "unat (i + 1) = unat i + 1"
    by (simp add: unat_word_ariths)
  with less show "((cfg, targetEpoch, maxToWrite, i + 1,
           Some (entries(i mod WeakSubjectivityPeriod cfg \<mapsto> FarFutureEpoch cfg))),
          (cfg, targetEpoch, maxToWrite, i, m))
        \<in> measure (\<lambda>(cfg, targetEpoch, maxToWrite, i, m). unat targetEpoch - unat i)"
    by simp
qed

declare overwriteTargets.simps [simp del]

text \<open>
  The function returns the pointer it was given; the result is the history it then points
  to, under \<open>Some\<close>.
\<close>

definition markAttestationForTargetEpoch ::
  "BeaconChainConfig \<Rightarrow> AttestationHistory option \<Rightarrow> uint64 \<Rightarrow> uint64
     \<Rightarrow> panic + AttestationHistory option" where
  "markAttestationForTargetEpoch cfg history sourceEpoch targetEpoch =
     (let wsPeriod = WeakSubjectivityPeriod cfg in
      case history of
        None \<Rightarrow> Inl NilPointerDereference
      | Some h0 \<Rightarrow>
     (case (if LatestEpochWritten h0 < targetEpoch
            then (let maxToWrite = LatestEpochWritten h0 + wsPeriod in
                  case overwriteTargets cfg targetEpoch maxToWrite
                         (LatestEpochWritten h0 + 1) (TargetToSource h0) of
                    Inl p \<Rightarrow> Inl p
                  | Inr m \<Rightarrow> Inr (h0\<lparr>TargetToSource := m, LatestEpochWritten := targetEpoch\<rparr>))
            else Inr h0) of
        Inl p \<Rightarrow> Inl p
      | Inr h \<Rightarrow>
          if wsPeriod = 0 then Inl IntegerDivideByZero
          else (case TargetToSource h of
                  None \<Rightarrow> Inl AssignmentToNilMap
                | Some entries \<Rightarrow>
                    Inr (Some (h\<lparr>TargetToSource :=
                                   Some (entries(targetEpoch mod wsPeriod \<mapsto> sourceEpoch))\<rparr>)))))"

section \<open>Epoch metrics\<close>

text \<open>
  \<^verbatim>\<open>reportEpochMetrics\<close> of \<^verbatim>\<open>beacon-chain/blockchain/forkchoice/metrics.go\<close>.
  The getters of the beacon state are not among the sources; a state is the record of what
  the function reads through them. \<^verbatim>\<open>helpers.CurrentEpoch(state)\<close> is the field
  \<open>CurrentEpoch\<close>, and \<^verbatim>\<open>state.BalanceAtIndex\<close> is the field \<open>BalanceAtIndex\<close>, with
  \<open>None\<close> for a call that returns an error. A pointer that the function tests against
  \<^verbatim>\<open>nil\<close> is an option.
  \<^verbatim>\<open>bytesutil.ToLowInt64\<close> is not among the sources either: \<^verbatim>\<open>reportEpochMetrics\<close>
  takes it as the parameter \<open>toLowInt64\<close>, and \<open>ToLowInt64\<close> below is what the specification
  says of it. The package variable \<^verbatim>\<open>precompute.Balances\<close> is a parameter as well.
\<close>

type_synonym byte = "8 word"

record Validator =
  Slashed :: bool
  ExitEpoch :: uint64
  ActivationEpoch :: uint64
  EffectiveBalance :: uint64

record Checkpoint =
  Epoch :: uint64
  Root :: "byte list"

record Eth1Data =
  DepositCount :: uint64

record Balance =
  PrevEpoch :: uint64
  PrevEpochTargetAttesters :: uint64

record BeaconState =
  CurrentEpoch :: uint64
  Validators :: "Validator list"
  BalanceAtIndex :: "uint64 \<Rightarrow> uint64 option"
  CurrentJustifiedCheckpoint :: "Checkpoint option"
  PreviousJustifiedCheckpoint :: "Checkpoint option"
  FinalizedCheckpoint :: "Checkpoint option"
  Eth1DataOf :: "Eth1Data option"

subsection \<open>Conversion to float64\<close>

text \<open>
  A gauge holds a \<^verbatim>\<open>float64\<close>, and every value set here is the conversion
  \<^verbatim>\<open>float64(x)\<close> of an integer of at most 64 bits. Go rounds such a conversion to the
  nearest value with a 53-bit significand, ties to the even significand; the exponent range
  is never exceeded. The result is a real number.
\<close>

fun bitLen :: "nat \<Rightarrow> nat" where
  "bitLen n = (if n = 0 then 0 else Suc (bitLen (n div 2)))"

declare bitLen.simps [simp del]

definition roundNearestEven :: "nat \<Rightarrow> nat" where
  "roundNearestEven n =
     (if n < 2 ^ 53 then n
      else
        (let e = bitLen n - 53; q = n div 2 ^ e; r = n mod 2 ^ e; half = 2 ^ (e - 1)
         in (if half < r \<or> (r = half \<and> odd q) then q + 1 else q) * 2 ^ e))"

definition float64 :: "int \<Rightarrow> real" where
  "float64 k = real_of_int (sgn k * int (roundNearestEven (nat \<bar>k\<bar>)))"

subsection \<open>The low 64 bits of a root\<close>

text \<open>
  Modelled from the spec: \<^verbatim>\<open>bytesutil.ToLowInt64\<close> is not among the sources. Section 6 of
  the specification gives the root gauges as the low 64 bits of the root, and sections 4.4
  and 9 read a root as a big-endian integer. \<open>rootInteger\<close> is that integer, and
  \<open>ToLowInt64\<close> is the 64-bit word of its low 64 bits; the name of the function makes the
  word an \<^verbatim>\<open>int64\<close>, so its integer value is its signed reading.
\<close>

definition rootInteger :: "byte list \<Rightarrow> nat" where
  "rootInteger bs = foldl (\<lambda>n b. n * 256 + unat b) 0 bs"

definition ToLowInt64 :: "byte list \<Rightarrow> int64" where
  "ToLowInt64 bs = word_of_nat (rootInteger bs)"

subsection \<open>The gauges\<close>

text \<open>
  The gauges and gauge vectors that \<^verbatim>\<open>reportEpochMetrics\<close> sets. A gauge vector maps the
  value of its label \<^verbatim>\<open>state\<close> to a gauge. Prometheus creates every gauge at 0.
\<close>

record Gauges =
  beaconFinalizedEpoch :: real
  beaconFinalizedRoot :: real
  beaconCurrentJustifiedEpoch :: real
  beaconCurrentJustifiedRoot :: real
  beaconPrevJustifiedEpoch :: real
  beaconPrevJustifiedRoot :: real
  validatorsCount :: "string \<Rightarrow> real"
  validatorsBalance :: "string \<Rightarrow> real"
  validatorsEffectiveBalance :: "string \<Rightarrow> real"
  currentEth1DataDepositCount :: real
  totalEligibleBalances :: real
  totalVotedTargetBalances :: real

definition newGauges :: Gauges where
  "newGauges =
     \<lparr>beaconFinalizedEpoch = 0, beaconFinalizedRoot = 0,
      beaconCurrentJustifiedEpoch = 0, beaconCurrentJustifiedRoot = 0,
      beaconPrevJustifiedEpoch = 0, beaconPrevJustifiedRoot = 0,
      validatorsCount = (\<lambda>label. 0), validatorsBalance = (\<lambda>label. 0),
      validatorsEffectiveBalance = (\<lambda>label. 0),
      currentEth1DataDepositCount = 0, totalEligibleBalances = 0,
      totalVotedTargetBalances = 0\<rparr>"

subsection \<open>reportEpochMetrics\<close>

text \<open>
  The local variables of the loop over the validators. The instance counters are Go
  \<^verbatim>\<open>int\<close>s that only count up from 0, at most once per element of a slice, so they never
  wrap and are integers here; the balance sums are \<^verbatim>\<open>uint64\<close> and wrap.
\<close>

record Tally =
  pendingInstances :: int
  activeInstances :: int
  slashingInstances :: int
  slashedInstances :: int
  exitingInstances :: int
  exitedInstances :: int
  pendingBalance :: uint64
  activeBalance :: uint64
  activeEffectiveBalance :: uint64
  exitingBalance :: uint64
  exitingEffectiveBalance :: uint64
  slashingBalance :: uint64
  slashingEffectiveBalance :: uint64

definition zeroTally :: Tally where
  "zeroTally =
     \<lparr>pendingInstances = 0, activeInstances = 0, slashingInstances = 0, slashedInstances = 0,
      exitingInstances = 0, exitedInstances = 0, pendingBalance = 0, activeBalance = 0,
      activeEffectiveBalance = 0, exitingBalance = 0, exitingEffectiveBalance = 0,
      slashingBalance = 0, slashingEffectiveBalance = 0\<rparr>"

text \<open>The body of the loop once the balance of the validator has been read.\<close>

definition tallyValidator ::
  "BeaconChainConfig \<Rightarrow> uint64 \<Rightarrow> Validator \<Rightarrow> uint64 \<Rightarrow> Tally \<Rightarrow> Tally" where
  "tallyValidator cfg currentEpoch validator valBalance t =
     (if Slashed validator then
        (if currentEpoch < ExitEpoch validator
         then t\<lparr>slashingInstances := slashingInstances t + 1,
                slashingBalance := slashingBalance t + valBalance,
                slashingEffectiveBalance := slashingEffectiveBalance t + EffectiveBalance validator\<rparr>
         else t\<lparr>slashedInstances := slashedInstances t + 1\<rparr>)
      else if ExitEpoch validator \<noteq> FarFutureEpoch cfg then
        (if currentEpoch < ExitEpoch validator
         then t\<lparr>exitingInstances := exitingInstances t + 1,
                exitingBalance := exitingBalance t + valBalance,
                exitingEffectiveBalance := exitingEffectiveBalance t + EffectiveBalance validator\<rparr>
         else t\<lparr>exitedInstances := exitedInstances t + 1\<rparr>)
      else if currentEpoch < ActivationEpoch validator
      then t\<lparr>pendingInstances := pendingInstances t + 1,
             pendingBalance := pendingBalance t + valBalance\<rparr>
      else t\<lparr>activeInstances := activeInstances t + 1,
             activeBalance := activeBalance t + valBalance,
             activeEffectiveBalance := activeEffectiveBalance t + EffectiveBalance validator\<rparr>)"

text \<open>
  The loop \<^verbatim>\<open>for i, validator := range validators\<close>, from index \<open>i\<close> on. \<open>None\<close> is the
  early \<^verbatim>\<open>return\<close> taken when \<^verbatim>\<open>state.BalanceAtIndex(uint64(i))\<close> returns an error.
\<close>

fun tallyValidators ::
  "BeaconChainConfig \<Rightarrow> BeaconState \<Rightarrow> uint64 \<Rightarrow> nat \<Rightarrow> Validator list \<Rightarrow> Tally \<Rightarrow> Tally option" where
  "tallyValidators cfg state currentEpoch i [] t = Some t"
| "tallyValidators cfg state currentEpoch i (validator # rest) t =
     (case BalanceAtIndex state (of_nat i) of
        None \<Rightarrow> None
      | Some valBalance \<Rightarrow>
          tallyValidators cfg state currentEpoch (Suc i) rest
            (tallyValidator cfg currentEpoch validator valBalance t))"

definition setTallies :: "Tally \<Rightarrow> Gauges \<Rightarrow> Gauges" where
  "setTallies t g =
     g\<lparr>validatorsCount := (validatorsCount g)
          (''Pending'' := float64 (pendingInstances t),
           ''Active'' := float64 (activeInstances t),
           ''Exiting'' := float64 (exitingInstances t),
           ''Exited'' := float64 (exitedInstances t),
           ''Slashing'' := float64 (slashingInstances t),
           ''Slashed'' := float64 (slashedInstances t)),
       validatorsBalance := (validatorsBalance g)
          (''Pending'' := float64 (uint (pendingBalance t)),
           ''Active'' := float64 (uint (activeBalance t)),
           ''Exiting'' := float64 (uint (exitingBalance t)),
           ''Slashing'' := float64 (uint (slashingBalance t))),
       validatorsEffectiveBalance := (validatorsEffectiveBalance g)
          (''Active'' := float64 (uint (activeEffectiveBalance t)),
           ''Exiting'' := float64 (uint (exitingEffectiveBalance t)),
           ''Slashing'' := float64 (uint (slashingEffectiveBalance t)))\<rparr>"

definition setCheckpoints :: "(byte list \<Rightarrow> int64) \<Rightarrow> BeaconState \<Rightarrow> Gauges \<Rightarrow> Gauges" where
  "setCheckpoints toLowInt64 state g =
     (let g1 = (case CurrentJustifiedCheckpoint state of
                  None \<Rightarrow> g
                | Some c \<Rightarrow> g\<lparr>beaconCurrentJustifiedEpoch := float64 (uint (Epoch c)),
                              beaconCurrentJustifiedRoot := float64 (sint (toLowInt64 (Root c)))\<rparr>);
          g2 = (case PreviousJustifiedCheckpoint state of
                  None \<Rightarrow> g1
                | Some c \<Rightarrow> g1\<lparr>beaconPrevJustifiedEpoch := float64 (uint (Epoch c)),
                               beaconPrevJustifiedRoot := float64 (sint (toLowInt64 (Root c)))\<rparr>)
      in case FinalizedCheckpoint state of
           None \<Rightarrow> g2
         | Some c \<Rightarrow> g2\<lparr>beaconFinalizedEpoch := float64 (uint (Epoch c)),
                        beaconFinalizedRoot := float64 (sint (toLowInt64 (Root c)))\<rparr>)"

definition reportEpochMetrics ::
  "BeaconChainConfig \<Rightarrow> (byte list \<Rightarrow> int64) \<Rightarrow> Balance option \<Rightarrow> BeaconState \<Rightarrow> Gauges \<Rightarrow> Gauges" where
  "reportEpochMetrics cfg toLowInt64 precomputeBalances state g =
     (let currentEpoch = CurrentEpoch state in
      case tallyValidators cfg state currentEpoch 0 (Validators state) zeroTally of
        None \<Rightarrow> g
      | Some t \<Rightarrow>
          (let g1 = setCheckpoints toLowInt64 state (setTallies t g);
               g2 = (case Eth1DataOf state of
                       None \<Rightarrow> g1
                     | Some e \<Rightarrow> g1\<lparr>currentEth1DataDepositCount := float64 (uint (DepositCount e))\<rparr>)
           in case precomputeBalances of
                None \<Rightarrow> g2
              | Some b \<Rightarrow> g2\<lparr>totalEligibleBalances := float64 (uint (PrevEpoch b)),
                             totalVotedTargetBalances := float64 (uint (PrevEpochTargetAttesters b))\<rparr>))"

section \<open>Notions used in the proofs\<close>

text \<open>
  A vote vector is read as a total function from positions to votes: a position beyond its
  end holds the untouched vote that the growth loop would put there. \<open>castVote\<close> is the
  effect of one iteration of \<^verbatim>\<open>ProcessAttestation\<close> on the entry it addresses.
\<close>

definition zeroVote :: Vote where
  "zeroVote = \<lparr>currentRoot = ZeroHash, nextRoot = ZeroHash, nextEpoch = 0\<rparr>"

definition voteAt :: "Vote list \<Rightarrow> nat \<Rightarrow> Vote" where
  "voteAt vs k = (if k < length vs then vs ! k else zeroVote)"

definition castVote :: "root \<Rightarrow> uint64 \<Rightarrow> Vote \<Rightarrow> Vote" where
  "castVote r e v =
     (if (nextRoot v = ZeroHash \<and> currentRoot v = ZeroHash) \<or> nextEpoch v < e
      then v\<lparr>nextEpoch := e, nextRoot := r\<rparr> else v)"

text \<open>The sum of the six instance counters of a tally, and their non-negativity.\<close>

definition instances :: "Tally \<Rightarrow> int" where
  "instances t = pendingInstances t + activeInstances t + exitingInstances t +
                 exitedInstances t + slashingInstances t + slashedInstances t"

definition countsNonneg :: "Tally \<Rightarrow> bool" where
  "countsNonneg t \<longleftrightarrow>
     0 \<le> pendingInstances t \<and> 0 \<le> activeInstances t \<and> 0 \<le> exitingInstances t \<and>
     0 \<le> exitedInstances t \<and> 0 \<le> slashingInstances t \<and> 0 \<le> slashedInstances t"

section \<open>Properties of New and Prune\<close>

text \<open>
  C6. For every justifiedEpoch, finalizedEpoch and finalizedRoot, New returns a ForkChoice
  whose store records exactly those two epochs and that root, whose node vector and
  root-to-index map are empty, whose prune threshold is 256, and whose balance and vote
  vectors are empty.
\<close>

theorem New_initial_state:
  "justifiedEpoch (store (New je fe fr)) = je \<and>
   finalizedEpoch (store (New je fe fr)) = fe \<and>
   finalizedRoot (store (New je fe fr)) = fr \<and>
   nodes (store (New je fe fr)) = [] \<and>
   nodeIndices (store (New je fe fr)) = Map.empty \<and>
   unat (pruneThreshold (store (New je fe fr))) = 256 \<and>
   balances (New je fe fr) = [] \<and>
   votes (New je fe fr) = []"
  by (simp add: New_def defaultPruneThreshold_def)

text \<open>
  C7. The two declarations of Prune are extensionally equal: for every store-level prune,
  context, ForkChoice and finalized root, each hands the store and the root unchanged to the
  store's prune, keeps the store it leaves behind and returns its result.
\<close>

theorem Prune_duplicate_equal:
  "Prune prune ctx f r = Prune' prune ctx f r \<and>
   Prune prune ctx f r = (f\<lparr>store := fst (prune ctx (store f) r)\<rparr>, snd (prune ctx (store f) r))"
  by (simp add: Prune_def Prune'_def split: prod.split)

section \<open>Properties of ProcessAttestation\<close>

lemma growVotes_eq:
  "growVotes i vs = vs @ replicate (Suc (unat i) - length vs) zeroVote"
proof (induction i vs rule: growVotes.induct)
  case (1 index vs)
  show ?case
  proof (cases "length vs \<le> unat index")
    case True
    then have "Suc (unat index) - length vs = Suc (Suc (unat index) - length (vs @ [zeroVote]))"
      by simp
    with True 1 show ?thesis
      by (subst growVotes.simps) (simp add: zeroVote_def replicate_app_Cons_same)
  next
    case False
    then show ?thesis by (subst growVotes.simps) simp
  qed
qed

lemma length_growVotes: "length (growVotes i vs) = max (length vs) (Suc (unat i))"
  by (simp add: growVotes_eq)

lemma voteAt_growVotes: "voteAt (growVotes i vs) k = voteAt vs k"
  by (auto simp: growVotes_eq voteAt_def nth_append)

lemma length_processIndex:
  "length (processIndex r e vs i) = max (length vs) (Suc (unat i))"
  by (simp add: processIndex_def Let_def length_growVotes)

lemma voteAt_processIndex:
  "voteAt (processIndex r e vs i) k =
     (if k = unat i then castVote r e (voteAt vs k) else voteAt vs k)"
proof -
  have in_range: "unat i < length (growVotes i vs)"
    by (simp add: length_growVotes)
  have at_i: "growVotes i vs ! unat i = voteAt vs (unat i)"
    using voteAt_growVotes [of i vs "unat i"] in_range by (simp add: voteAt_def)
  show ?thesis
  proof (cases "k = unat i")
    case True
    with in_range at_i show ?thesis
      by (simp add: processIndex_def Let_def castVote_def voteAt_def)
  next
    case False
    have "voteAt (processIndex r e vs i) k = voteAt (growVotes i vs) k"
      using False by (simp add: processIndex_def Let_def voteAt_def)
    with False show ?thesis by (simp add: voteAt_growVotes)
  qed
qed

lemma castVote_idem: "castVote r e (castVote r e v) = castVote r e v"
  by (simp add: castVote_def)

lemma Max_insert_max:
  assumes "finite S"
  shows "Max (insert (max a b) S) = Max (insert (a::nat) (insert b S))"
proof (cases "S = {}")
  case True
  then show ?thesis by simp
next
  case False
  with assms show ?thesis by (simp add: max.assoc)
qed

lemma Max_insert_absorb:
  assumes "finite S"
  shows "Max (insert (Max (insert (a::nat) S)) S) = Max (insert a S)"
proof (cases "S = {}")
  case True
  then show ?thesis by simp
next
  case False
  with assms show ?thesis by (simp add: max.assoc)
qed

lemma length_processIndices:
  "length (processIndices r e vs is) =
     Max (insert (length vs) ((\<lambda>i. Suc (unat i)) ` set is))"
proof (induction "is" arbitrary: vs)
  case Nil
  show ?case by simp
next
  case (Cons i "is")
  show ?case
    by (simp only: processIndices.simps Cons length_processIndex list.set image_insert
          Max_insert_max [OF finite_imageI [OF finite_set]])
qed

lemma voteAt_processIndices:
  "voteAt (processIndices r e vs is) k =
     (if k \<in> unat ` set is then castVote r e (voteAt vs k) else voteAt vs k)"
proof (induction "is" arbitrary: vs)
  case Nil
  show ?case by simp
next
  case (Cons i "is")
  show ?case
    by (auto simp: Cons voteAt_processIndex castVote_idem)
qed

lemma votes_eqI:
  assumes "length vs = length ws" and "\<And>k. voteAt vs k = voteAt ws k"
  shows "vs = ws"
proof (rule nth_equalityI)
  show "length vs = length ws" by fact
next
  fix k assume "k < length vs"
  with assms(1) assms(2) [of k] show "vs ! k = ws ! k" by (simp add: voteAt_def)
qed

lemma processIndices_idem:
  "processIndices r e (processIndices r e vs is) is = processIndices r e vs is"
proof (rule votes_eqI)
  show "length (processIndices r e (processIndices r e vs is) is) = length (processIndices r e vs is)"
    by (simp only: length_processIndices Max_insert_absorb [OF finite_imageI [OF finite_set]])
next
  fix k
  show "voteAt (processIndices r e (processIndices r e vs is) is) k = voteAt (processIndices r e vs is) k"
    by (simp add: voteAt_processIndices castVote_idem)
qed



lemma nth_processIndices:
  assumes "k < length (processIndices r e vs is)"
  shows "processIndices r e vs is ! k =
           (if k \<in> unat ` set is then castVote r e (voteAt vs k) else voteAt vs k)"
  using voteAt_processIndices [of r e vs "is" k] assms by (simp add: voteAt_def)

lemma listed_in_range:
  assumes "i \<in> set is"
  shows "unat i < length (processIndices r e vs is)"
proof -
  have "Suc (unat i) \<le> Max (insert (length vs) ((\<lambda>i. Suc (unat i)) ` set is))"
    using assms by (intro Max_ge) auto
  then show ?thesis by (simp only: length_processIndices)
qed

lemma length_processIndices_mono: "length vs \<le> length (processIndices r e vs is)"
  by (simp only: length_processIndices) (intro Max_ge; simp)

text \<open>
  C2, as amended. For every vote vector, every validator index listed in a call
  ProcessAttestation(validatorIndices, blockRoot, targetEpoch) and every targetEpoch: let
  \<open>v\<close> be the entry at that index before the call, the untouched vote if the index is
  beyond the vector. After the call the entry is \<open>v\<close> with nextRoot set to blockRoot and
  nextEpoch set to targetEpoch if both roots of \<open>v\<close> are the zero hash (as they are in every
  entry this call allocates) or targetEpoch is strictly greater than the nextEpoch of
  \<open>v\<close>; in every other case the entry is \<open>v\<close>, unchanged. The claim as written takes
  "newly allocated" to mean allocated by this call; the code tests the two roots instead, so
  an entry allocated earlier and never voted on is overwritten as well.
\<close>

theorem ProcessAttestation_entry:
  assumes "index \<in> set validatorIndices"
  shows "votes (ProcessAttestation f validatorIndices blockRoot targetEpoch) ! unat index =
           (let v = (if unat index < length (votes f) then votes f ! unat index
                     else \<lparr>currentRoot = ZeroHash, nextRoot = ZeroHash, nextEpoch = 0\<rparr>)
            in if (nextRoot v = ZeroHash \<and> currentRoot v = ZeroHash) \<or> nextEpoch v < targetEpoch
               then v\<lparr>nextEpoch := targetEpoch, nextRoot := blockRoot\<rparr>
               else v)"
proof -
  have "unat index \<in> unat ` set validatorIndices"
    using assms by (rule imageI)
  then have "processIndices blockRoot targetEpoch (votes f) validatorIndices ! unat index =
               castVote blockRoot targetEpoch (voteAt (votes f) (unat index))"
    using nth_processIndices [OF listed_in_range [OF assms], of blockRoot targetEpoch "votes f"]
    by simp
  then show ?thesis
    unfolding ProcessAttestation_def castVote_def voteAt_def zeroVote_def Let_def by simp
qed

text \<open>An instance: a first vote for validator 1 on the empty vector.\<close>

theorem ProcessAttestation_entry_witness:
  "votes (ProcessAttestation (New 0 0 ZeroHash) [1] 7 1) ! 1 =
     \<lparr>currentRoot = ZeroHash, nextRoot = 7, nextEpoch = 1\<rparr>"
  using ProcessAttestation_entry [of 1 "[1]" "New 0 0 ZeroHash" 7 1]
  by (simp add: New_def)

text \<open>
  The claim as written fails: entry 0 was allocated by the first call, as padding for
  validator 1, and target epoch 0 is not greater than its nextEpoch 0, yet the second call
  overwrites its nextRoot.
\<close>

theorem ProcessAttestation_entry_counterexample:
  "unat (0 :: uint64) < length (votes (ProcessAttestation (New 0 0 ZeroHash) [1] 7 1)) \<and>
   \<not> nextEpoch (votes (ProcessAttestation (New 0 0 ZeroHash) [1] 7 1) ! unat (0 :: uint64)) < 0 \<and>
   votes (ProcessAttestation (New 0 0 ZeroHash) [1] 7 1) ! unat (0 :: uint64) =
     \<lparr>currentRoot = ZeroHash, nextRoot = ZeroHash, nextEpoch = 0\<rparr> \<and>
   votes (ProcessAttestation (ProcessAttestation (New 0 0 ZeroHash) [1] 7 1) [0] 9 0) ! unat (0 :: uint64) =
     \<lparr>currentRoot = ZeroHash, nextRoot = 9, nextEpoch = 0\<rparr>"
  by (simp add: ProcessAttestation_def New_def processIndex_def growVotes.simps ZeroHash_def)




text \<open>
  C4. ProcessAttestation is idempotent: for every ForkChoice and every validatorIndices,
  blockRoot and targetEpoch, calling it twice in succession with the same arguments yields
  the same ForkChoice, hence the same vote vector, as calling it once.
\<close>

theorem ProcessAttestation_idempotent:
  "ProcessAttestation (ProcessAttestation f validatorIndices blockRoot targetEpoch)
       validatorIndices blockRoot targetEpoch
     = ProcessAttestation f validatorIndices blockRoot targetEpoch"
  by (simp add: ProcessAttestation_def processIndices_idem)

text \<open>
  C5. For every ProcessAttestation call: the length of the vote vector afterwards is the
  maximum of its previous length and of (index + 1) over the listed indices, so it never
  decreases; every slot \<open>k\<close> allocated by the growth that is not a listed index holds the
  zero hash in both roots and epoch zero; and every slot \<open>k\<close> below the old length that
  is not listed is unchanged.
\<close>

theorem ProcessAttestation_growth:
  "length (votes (ProcessAttestation f validatorIndices blockRoot targetEpoch)) =
       Max (insert (length (votes f)) ((\<lambda>index. unat index + 1) ` set validatorIndices)) \<and>
   length (votes f) \<le> length (votes (ProcessAttestation f validatorIndices blockRoot targetEpoch)) \<and>
   (length (votes f) \<le> k \<and>
    k < length (votes (ProcessAttestation f validatorIndices blockRoot targetEpoch)) \<and>
    k \<notin> unat ` set validatorIndices \<longrightarrow>
      votes (ProcessAttestation f validatorIndices blockRoot targetEpoch) ! k =
        \<lparr>currentRoot = ZeroHash, nextRoot = ZeroHash, nextEpoch = 0\<rparr>) \<and>
   (k < length (votes f) \<and> k \<notin> unat ` set validatorIndices \<longrightarrow>
      votes (ProcessAttestation f validatorIndices blockRoot targetEpoch) ! k = votes f ! k)"
proof -
  let ?vs = "processIndices blockRoot targetEpoch (votes f) validatorIndices"
  have len: "length ?vs = Max (insert (length (votes f)) ((\<lambda>index. unat index + 1) ` set validatorIndices))"
    by (simp only: length_processIndices Suc_eq_plus1)
  have mono: "length (votes f) \<le> length ?vs"
    by (rule length_processIndices_mono)
  have fresh: "?vs ! k = \<lparr>currentRoot = ZeroHash, nextRoot = ZeroHash, nextEpoch = 0\<rparr>"
    if "length (votes f) \<le> k" "k < length ?vs" "k \<notin> unat ` set validatorIndices"
    using nth_processIndices [OF that(2)] that(1,3) by (simp add: voteAt_def zeroVote_def)
  have kept: "?vs ! k = votes f ! k"
    if "k < length (votes f)" "k \<notin> unat ` set validatorIndices"
  proof -
    from that(1) mono have "k < length ?vs" by simp
    from nth_processIndices [OF this] that show ?thesis by (simp add: voteAt_def)
  qed
  from len mono fresh kept show ?thesis
    by (simp add: ProcessAttestation_def)
qed

text \<open>An instance: listing validator 2 on the empty vector allocates three slots.\<close>

theorem ProcessAttestation_growth_witness:
  "length (votes (ProcessAttestation (New 0 0 ZeroHash) [2] 7 1)) = 3 \<and>
   votes (ProcessAttestation (New 0 0 ZeroHash) [2] 7 1) ! 1 =
     \<lparr>currentRoot = ZeroHash, nextRoot = ZeroHash, nextEpoch = 0\<rparr>"
  using ProcessAttestation_growth [of "New 0 0 ZeroHash" "[2]" 7 1 1]
  by (simp add: New_def)

section \<open>Properties of Head\<close>

text \<open>
  C1, as amended. For every ForkChoice, every input and every choice of the three callees,
  the state \<open>f'\<close> and the result \<open>res\<close> of Head are as follows, where \<open>votesLeft\<close>,
  \<open>balancesLeft\<close> and \<open>newBalancesLeft\<close> are the slices \<^verbatim>\<open>f.votes\<close>, \<^verbatim>\<open>f.balances\<close> and
  \<^verbatim>\<open>justifiedStateBalances\<close> as computeDeltas leaves them (the slices themselves if it
  writes through none of them). If computeDeltas fails, Head returns its error wrapped, the
  vote vector is \<open>votesLeft\<close> and the balance snapshot is \<open>balancesLeft\<close>. If computeDeltas
  succeeds, the vote vector is the one it returned, whatever happens next: if
  applyWeightChanges fails, Head returns its error wrapped and the balance snapshot is
  \<open>balancesLeft\<close>; otherwise the balance snapshot is \<open>newBalancesLeft\<close> and Head returns
  what the final head lookup returns, error or root. So an error of applyWeightChanges
  leaves the new vote vector in place, and an error of the head lookup leaves both new
  vectors in place.
\<close>

theorem Head_state_after:
  assumes "Head cdf awcf hdf f finalizedEpoch' justifiedRoot justifiedStateBalances justifiedEpoch'
             = (f', res)"
    and "cdf (nodeIndices (store f)) (votes f) (balances f) justifiedStateBalances
             = ((indicesLeft, votesLeft, balancesLeft, newBalancesLeft), returned)"
  shows "(case returned of
            Inl err \<Rightarrow>
              res = Inl (Wrap err ''Could not compute deltas'') \<and>
              votes f' = votesLeft \<and> balances f' = balancesLeft
          | Inr (deltas, newVotes) \<Rightarrow>
              votes f' = newVotes \<and>
              (case snd (awcf ((store f)\<lparr>nodeIndices := indicesLeft\<rparr>)
                           justifiedEpoch' finalizedEpoch' deltas) of
                 Some err \<Rightarrow>
                   res = Inl (Wrap err ''Could not apply score changes'') \<and>
                   balances f' = balancesLeft
               | None \<Rightarrow>
                   res = snd (hdf (fst (awcf ((store f)\<lparr>nodeIndices := indicesLeft\<rparr>)
                                          justifiedEpoch' finalizedEpoch' deltas))
                                justifiedRoot) \<and>
                   balances f' = newBalancesLeft))"
  using assms
  by (auto simp: Head_def Let_def split: sum.splits prod.splits option.splits)

text \<open>
  With the callees as the specification describes them: a vote of validator 0 for root 7,
  no block inserted. Head fails in the final lookup, the justified root being unknown.
\<close>

lemma cex_votes:
  "votes (ProcessAttestation (New 0 0 ZeroHash) [0] 7 1) =
     [\<lparr>currentRoot = ZeroHash, nextRoot = 7, nextEpoch = 1\<rparr>]"
  by (simp add: ProcessAttestation_def New_def processIndex_def growVotes.simps ZeroHash_def)

theorem Head_state_after_witness:
  "votes (fst (Head computeDeltas applyWeightChanges head
          (ProcessAttestation (New 0 0 ZeroHash) [0] 7 1) 0 7 [32] 0)) =
     [\<lparr>currentRoot = 7, nextRoot = 7, nextEpoch = 1\<rparr>]"
  using Head_state_after [of computeDeltas applyWeightChanges head
          "ProcessAttestation (New 0 0 ZeroHash) [0] 7 1" 0 7 "[32]" 0
          "fst (Head computeDeltas applyWeightChanges head
          (ProcessAttestation (New 0 0 ZeroHash) [0] 7 1) 0 7 [32] 0)"
          "snd (Head computeDeltas applyWeightChanges head
          (ProcessAttestation (New 0 0 ZeroHash) [0] 7 1) 0 7 [32] 0)"
          "nodeIndices (store (ProcessAttestation (New 0 0 ZeroHash) [0] 7 1))"
          "votes (ProcessAttestation (New 0 0 ZeroHash) [0] 7 1)"
          "balances (ProcessAttestation (New 0 0 ZeroHash) [0] 7 1)"
          "[32]"
          "snd (computeDeltas (nodeIndices (store (ProcessAttestation (New 0 0 ZeroHash) [0] 7 1)))
                 (votes (ProcessAttestation (New 0 0 ZeroHash) [0] 7 1))
                 (balances (ProcessAttestation (New 0 0 ZeroHash) [0] 7 1)) [32])"]
  by (simp add: cex_votes computeDeltas_def)

text \<open>
  The claim as written fails on that input: Head returns an error, yet the vote vector
  has been promoted and the balance snapshot replaced.
\<close>

theorem Head_not_atomic_counterexample:
  "snd (Head computeDeltas applyWeightChanges head
          (ProcessAttestation (New 0 0 ZeroHash) [0] 7 1) 0 7 [32] 0) = Inl UnknownJustifiedRoot \<and>
   votes (ProcessAttestation (New 0 0 ZeroHash) [0] 7 1) =
     [\<lparr>currentRoot = ZeroHash, nextRoot = 7, nextEpoch = 1\<rparr>] \<and>
   votes (fst (Head computeDeltas applyWeightChanges head
          (ProcessAttestation (New 0 0 ZeroHash) [0] 7 1) 0 7 [32] 0)) =
     [\<lparr>currentRoot = 7, nextRoot = 7, nextEpoch = 1\<rparr>] \<and>
   balances (ProcessAttestation (New 0 0 ZeroHash) [0] 7 1) = [] \<and>
   balances (fst (Head computeDeltas applyWeightChanges head
          (ProcessAttestation (New 0 0 ZeroHash) [0] 7 1) 0 7 [32] 0)) = [32]"
  by (simp add: Head_def ProcessAttestation_def New_def processIndex_def growVotes.simps ZeroHash_def
        computeDeltas_def deltaStep_def addDelta_def balanceAt_def applyWeightChanges_def head_def)

section \<open>Properties of the slashing-protection history\<close>

lemma sint_below_2p63:
  fixes x :: uint64
  assumes "uint x < 2 ^ 63"
  shows "sint x = uint x"
proof -
  have "0 \<le> uint x" by simp
  with assms have "- (2 ^ 63) \<le> uint x" and "uint x < 2 ^ 63"
    by linarith+
  then have "signed_take_bit 63 (uint x) = uint x"
    by (rule signed_take_bit_int_eq_self)
  then show ?thesis
    by (simp add: sint_uint)
qed

lemma sint_diff_below_2p63:
  fixes a b :: uint64
  assumes "uint a < 2 ^ 63" and "uint b < 2 ^ 63"
  shows "sint (a - b) = uint a - uint b"
proof -
  have "0 \<le> uint a" and "0 \<le> uint b" by simp_all
  with assms have "- (2 ^ 63) \<le> uint a - uint b" and "uint a - uint b < 2 ^ 63"
    by linarith+
  then have "signed_take_bit 63 (uint a - uint b) = uint a - uint b"
    by (rule signed_take_bit_int_eq_self)
  then show ?thesis
    by (simp add: sint_word_diff sint_below_2p63 [OF assms(1)] sint_below_2p63 [OF assms(2)])
qed

lemma overwriteTargets_returns:
  assumes "WeakSubjectivityPeriod cfg \<noteq> 0" and "m \<noteq> None"
  shows "\<exists>entries'. overwriteTargets cfg targetEpoch maxToWrite i m = Inr (Some entries')"
  using assms
proof (induction cfg targetEpoch maxToWrite i m rule: overwriteTargets.induct)
  case (1 cfg targetEpoch maxToWrite i m)
  from 1(3) obtain entries where m: "m = Some entries" by blast
  show ?case
  proof (cases "i < targetEpoch \<and> i \<le> maxToWrite")
    case True
    have "Some (entries(i mod WeakSubjectivityPeriod cfg \<mapsto> FarFutureEpoch cfg)) \<noteq> None"
      by simp
    from 1(1) [OF True 1(2) m 1(2) this] obtain entries' where
      "overwriteTargets cfg targetEpoch maxToWrite (i + 1)
         (Some (entries(i mod WeakSubjectivityPeriod cfg \<mapsto> FarFutureEpoch cfg))) = Inr (Some entries')" ..
    with True 1(2) m have "overwriteTargets cfg targetEpoch maxToWrite i m = Inr (Some entries')"
      by (subst overwriteTargets.simps) (simp del: fun_upd_apply)
    then show ?thesis by blast
  next
    case False
    have "overwriteTargets cfg targetEpoch maxToWrite i m = Inr m"
      by (subst overwriteTargets.simps) (simp only: False if_False)
    with m show ?thesis by blast
  qed
qed

lemma markAttestationForTargetEpoch_returns:
  assumes "WeakSubjectivityPeriod cfg \<noteq> 0" and "TargetToSource history \<noteq> None"
  shows "\<exists>h' entries'.
           markAttestationForTargetEpoch cfg (Some history) sourceEpoch targetEpoch = Inr (Some h') \<and>
           LatestEpochWritten h' =
             (if LatestEpochWritten history < targetEpoch then targetEpoch
              else LatestEpochWritten history) \<and>
           TargetToSource h' = Some entries' \<and>
           entries' (targetEpoch mod WeakSubjectivityPeriod cfg) = Some sourceEpoch"
proof (cases "LatestEpochWritten history < targetEpoch")
  case True
  obtain entries' where "overwriteTargets cfg targetEpoch
      (LatestEpochWritten history + WeakSubjectivityPeriod cfg)
      (LatestEpochWritten history + 1) (TargetToSource history) = Inr (Some entries')"
    using overwriteTargets_returns [OF assms] by blast
  with True assms(1) show ?thesis
    by (simp add: markAttestationForTargetEpoch_def Let_def)
next
  case False
  from assms(2) obtain entries where "TargetToSource history = Some entries" by blast
  with False assms(1) show ?thesis
    by (simp add: markAttestationForTargetEpoch_def Let_def)
qed

text \<open>
  C10, as amended. For every configuration whose weak subjectivity period is not zero, every
  attestation history that is not nil and whose map is allocated (not nil), and every
  sourceEpoch and targetEpoch such that targetEpoch, LatestEpochWritten and the period are
  below \<open>2 ^ 63\<close> and targetEpoch is at least LatestEpochWritten minus the period:
  markAttestationForTargetEpoch returns, and safeTargetToSource of targetEpoch on the
  history it returns is sourceEpoch (which is not FAR_FUTURE_EPOCH unless sourceEpoch is).
\<close>

theorem mark_then_lookup:
  assumes ws: "WeakSubjectivityPeriod cfg \<noteq> 0" "uint (WeakSubjectivityPeriod cfg) < 2 ^ 63"
    and allocated: "TargetToSource history \<noteq> None"
    and range: "uint targetEpoch < 2 ^ 63" "uint (LatestEpochWritten history) < 2 ^ 63"
    and window: "uint (LatestEpochWritten history) - uint (WeakSubjectivityPeriod cfg)
                   \<le> uint targetEpoch"
  shows "\<exists>h'. markAttestationForTargetEpoch cfg (Some history) sourceEpoch targetEpoch = Inr (Some h') \<and>
           safeTargetToSource cfg (Some h') targetEpoch = Inr sourceEpoch"
proof -
  obtain h' entries' where h':
      "markAttestationForTargetEpoch cfg (Some history) sourceEpoch targetEpoch = Inr (Some h')"
      "LatestEpochWritten h' =
         (if LatestEpochWritten history < targetEpoch then targetEpoch
          else LatestEpochWritten history)"
      "TargetToSource h' = Some entries'"
      "entries' (targetEpoch mod WeakSubjectivityPeriod cfg) = Some sourceEpoch"
    using markAttestationForTargetEpoch_returns [OF ws(1) allocated] by blast
  have not_ahead: "\<not> LatestEpochWritten h' < targetEpoch"
    using h'(2) by (simp split: if_splits)
  have latest: "uint (LatestEpochWritten h') < 2 ^ 63"
    using h'(2) range by (simp split: if_splits)
  have "0 \<le> uint (WeakSubjectivityPeriod cfg)" by simp
  with h'(2) window
  have "uint (LatestEpochWritten h') - uint (WeakSubjectivityPeriod cfg) \<le> uint targetEpoch"
    by (simp split: if_splits)
  then have in_window: "\<not> sint targetEpoch < sint (LatestEpochWritten h' - WeakSubjectivityPeriod cfg)"
    by (simp add: sint_below_2p63 [OF range(1)] sint_diff_below_2p63 [OF latest ws(2)])
  from not_ahead in_window ws(1) h'(3,4)
  have "safeTargetToSource cfg (Some h') targetEpoch = Inr sourceEpoch"
    by (simp add: safeTargetToSource_def Let_def mapIndex_def)
  with h'(1) show ?thesis by blast
qed

text \<open>An instance below the latest written epoch, with the period 54000 and an empty map.\<close>

theorem mark_then_lookup_witness:
  "\<exists>h'. markAttestationForTargetEpoch \<lparr>FarFutureEpoch = - 1, WeakSubjectivityPeriod = 54000\<rparr>
            (Some \<lparr>TargetToSource = Some Map.empty, LatestEpochWritten = 10\<rparr>) 3 5 = Inr (Some h') \<and>
         safeTargetToSource \<lparr>FarFutureEpoch = - 1, WeakSubjectivityPeriod = 54000\<rparr> (Some h') 5 = Inr 3"
  using mark_then_lookup [of "\<lparr>FarFutureEpoch = - 1, WeakSubjectivityPeriod = 54000\<rparr>"
            "\<lparr>TargetToSource = Some Map.empty, LatestEpochWritten = 10\<rparr>" 5 3]
  by simp

text \<open>
  The claim as written fails in two ways. At \<open>2 ^ 63\<close>: with LatestEpochWritten
  \<open>2 ^ 63 - 1\<close>, marking source 5 for target \<open>2 ^ 63\<close> stores the source, but in the lookup
  \<^verbatim>\<open>int(targetEpoch)\<close> is negative and \<^verbatim>\<open>int(LatestEpochWritten) - int(wsPeriod)\<close>
  wraps to a positive value, so the lookup answers FAR_FUTURE_EPOCH. And on a history whose
  map is nil, the zero value of the struct, marking panics on the assignment into the map.
  The last conjunct is the panic on a nil pointer, on the first read of a field.
\<close>

theorem mark_then_lookup_counterexample:
  "uint (9223372036854775807 :: uint64) - uint (54000 :: uint64) \<le> uint (9223372036854775808 :: uint64) \<and>
   (case markAttestationForTargetEpoch \<lparr>FarFutureEpoch = - 1, WeakSubjectivityPeriod = 54000\<rparr>
           (Some \<lparr>TargetToSource = Some Map.empty, LatestEpochWritten = 9223372036854775807\<rparr>)
           5 9223372036854775808 of
      Inl p \<Rightarrow> Inl p
    | Inr h' \<Rightarrow>
        safeTargetToSource \<lparr>FarFutureEpoch = - 1, WeakSubjectivityPeriod = 54000\<rparr> h' 9223372036854775808)
     = Inr (- 1) \<and>
   (5 :: uint64) \<noteq> - 1 \<and>
   uint (10 :: uint64) - uint (54000 :: uint64) \<le> uint (5 :: uint64) \<and>
   markAttestationForTargetEpoch \<lparr>FarFutureEpoch = - 1, WeakSubjectivityPeriod = 54000\<rparr>
       (Some \<lparr>TargetToSource = None, LatestEpochWritten = 10\<rparr>) 3 5
     = Inl AssignmentToNilMap \<and>
   markAttestationForTargetEpoch \<lparr>FarFutureEpoch = - 1, WeakSubjectivityPeriod = 54000\<rparr> None 3 5
     = Inl NilPointerDereference"
  by (simp add: markAttestationForTargetEpoch_def safeTargetToSource_def overwriteTargets.simps)

section \<open>Properties of reportEpochMetrics\<close>

lemma float64_exact:
  assumes "\<bar>k\<bar> < 2 ^ 53"
  shows "float64 k = real_of_int k"
proof -
  have "nat \<bar>k\<bar> < 2 ^ 53"
    using assms by (simp add: nat_less_iff)
  then have "roundNearestEven (nat \<bar>k\<bar>) = nat \<bar>k\<bar>"
    by (simp add: roundNearestEven_def)
  then have "sgn k * int (roundNearestEven (nat \<bar>k\<bar>)) = k"
    by (simp add: sgn_mult_abs)
  then show ?thesis
    by (simp add: float64_def)
qed

lemma float64_integral: "float64 k \<in> \<int>"
  by (simp add: float64_def)

lemma tallyValidator_instances:
  "instances (tallyValidator cfg currentEpoch validator valBalance t) = instances t + 1"
  by (simp add: tallyValidator_def instances_def)

lemma tallyValidator_nonneg:
  "countsNonneg t \<Longrightarrow> countsNonneg (tallyValidator cfg currentEpoch validator valBalance t)"
  by (simp add: tallyValidator_def countsNonneg_def)

lemma tallyValidators_Some:
  assumes "\<forall>j < length vs. BalanceAtIndex state (of_nat (i + j)) \<noteq> None"
  shows "\<exists>t'. tallyValidators cfg state currentEpoch i vs t = Some t' \<and>
           instances t' = instances t + int (length vs) \<and>
           (countsNonneg t \<longrightarrow> countsNonneg t')"
  using assms
proof (induction vs arbitrary: i t)
  case Nil
  show ?case by simp
next
  case (Cons v vs)
  from Cons.prems have "BalanceAtIndex state (of_nat (i + 0)) \<noteq> None"
    by blast
  then obtain b where b: "BalanceAtIndex state (of_nat i) = Some b"
    by auto
  have "\<forall>j < length vs. BalanceAtIndex state (of_nat (Suc i + j)) \<noteq> None"
  proof (intro allI impI)
    fix j assume "j < length vs"
    then have "Suc j < length (v # vs)" by simp
    with Cons.prems have "BalanceAtIndex state (of_nat (i + Suc j)) \<noteq> None" by blast
    then show "BalanceAtIndex state (of_nat (Suc i + j)) \<noteq> None" by simp
  qed
  from Cons.IH [OF this, of "tallyValidator cfg currentEpoch v b t"]
  obtain t' where t': "tallyValidators cfg state currentEpoch (Suc i) vs
        (tallyValidator cfg currentEpoch v b t) = Some t'"
      "instances t' = instances (tallyValidator cfg currentEpoch v b t) + int (length vs)"
      "countsNonneg (tallyValidator cfg currentEpoch v b t) \<longrightarrow> countsNonneg t'"
    by blast
  from t' b show ?case
    by (simp add: tallyValidator_instances tallyValidator_nonneg)
qed

lemma validatorsCount_setTallies:
  "validatorsCount (setTallies t g) ''Pending'' = float64 (pendingInstances t)"
  "validatorsCount (setTallies t g) ''Active'' = float64 (activeInstances t)"
  "validatorsCount (setTallies t g) ''Exiting'' = float64 (exitingInstances t)"
  "validatorsCount (setTallies t g) ''Exited'' = float64 (exitedInstances t)"
  "validatorsCount (setTallies t g) ''Slashing'' = float64 (slashingInstances t)"
  "validatorsCount (setTallies t g) ''Slashed'' = float64 (slashedInstances t)"
  by (simp_all add: setTallies_def)

lemma validatorsCount_setCheckpoints:
  "validatorsCount (setCheckpoints f state g) = validatorsCount g"
  by (simp add: setCheckpoints_def Let_def split: option.split)

lemma reportEpochMetrics_Some:
  assumes "tallyValidators cfg state (CurrentEpoch state) 0 (Validators state) zeroTally = Some t"
  shows "validatorsCount (reportEpochMetrics cfg f pb state g) = validatorsCount (setTallies t g)"
    and "beaconFinalizedEpoch (reportEpochMetrics cfg f pb state g) =
           beaconFinalizedEpoch (setCheckpoints f state (setTallies t g))"
    and "beaconFinalizedRoot (reportEpochMetrics cfg f pb state g) =
           beaconFinalizedRoot (setCheckpoints f state (setTallies t g))"
    and "beaconCurrentJustifiedEpoch (reportEpochMetrics cfg f pb state g) =
           beaconCurrentJustifiedEpoch (setCheckpoints f state (setTallies t g))"
    and "beaconCurrentJustifiedRoot (reportEpochMetrics cfg f pb state g) =
           beaconCurrentJustifiedRoot (setCheckpoints f state (setTallies t g))"
    and "beaconPrevJustifiedEpoch (reportEpochMetrics cfg f pb state g) =
           beaconPrevJustifiedEpoch (setCheckpoints f state (setTallies t g))"
    and "beaconPrevJustifiedRoot (reportEpochMetrics cfg f pb state g) =
           beaconPrevJustifiedRoot (setCheckpoints f state (setTallies t g))"
  using assms
  by (simp_all add: reportEpochMetrics_def Let_def validatorsCount_setCheckpoints split: option.split)

lemma instances_bound:
  assumes "countsNonneg t"
  shows "pendingInstances t \<le> instances t" "activeInstances t \<le> instances t"
    "exitingInstances t \<le> instances t" "exitedInstances t \<le> instances t"
    "slashingInstances t \<le> instances t" "slashedInstances t \<le> instances t"
  using assms by (simp_all add: countsNonneg_def instances_def)

lemma float64_count:
  assumes "0 \<le> c" and "c \<le> n" and "n < 2 ^ 53"
  shows "float64 c = real_of_int c"
  using assms by (intro float64_exact) simp

text \<open>
  C8, as amended. For every beacon state in which the balance of every validator of the
  registry can be read: if the finalized checkpoint is present, reportEpochMetrics sets the
  gauge beacon_finalized_epoch to the float64 conversion of the checkpoint's epoch and
  beacon_finalized_root to the float64 conversion of the integer value of the low 64 bits
  of the checkpoint's root, read as an int64; and likewise the current-justified and
  previous-justified gauges from their checkpoints. The low 64 bits of a root \<open>r\<close> are
  those of the integer the root denotes. Every converted value is an integer, and it is
  the converted integer itself whenever that is below \<open>2 ^ 53\<close> in absolute value.
\<close>

theorem checkpoint_gauges:
  assumes "\<forall>i < length (Validators state). BalanceAtIndex state (of_nat i) \<noteq> None"
  shows "(FinalizedCheckpoint state = Some fc \<longrightarrow>
            beaconFinalizedEpoch (reportEpochMetrics cfg ToLowInt64 precomputeBalances state g)
              = float64 (uint (Epoch fc)) \<and>
            beaconFinalizedRoot (reportEpochMetrics cfg ToLowInt64 precomputeBalances state g)
              = float64 (sint (ToLowInt64 (Root fc)))) \<and>
         (CurrentJustifiedCheckpoint state = Some cj \<longrightarrow>
            beaconCurrentJustifiedEpoch (reportEpochMetrics cfg ToLowInt64 precomputeBalances state g)
              = float64 (uint (Epoch cj)) \<and>
            beaconCurrentJustifiedRoot (reportEpochMetrics cfg ToLowInt64 precomputeBalances state g)
              = float64 (sint (ToLowInt64 (Root cj)))) \<and>
         (PreviousJustifiedCheckpoint state = Some pj \<longrightarrow>
            beaconPrevJustifiedEpoch (reportEpochMetrics cfg ToLowInt64 precomputeBalances state g)
              = float64 (uint (Epoch pj)) \<and>
            beaconPrevJustifiedRoot (reportEpochMetrics cfg ToLowInt64 precomputeBalances state g)
              = float64 (sint (ToLowInt64 (Root pj)))) \<and>
         uint (ToLowInt64 r) = int (rootInteger r) mod 2 ^ 64 \<and>
         float64 k \<in> \<int> \<and>
         (\<bar>k\<bar> < 2 ^ 53 \<longrightarrow> float64 k = real_of_int k)"
proof -
  have "\<forall>j < length (Validators state). BalanceAtIndex state (of_nat (0 + j)) \<noteq> None"
    using assms by simp
  from tallyValidators_Some [OF this, of cfg "CurrentEpoch state" zeroTally]
  obtain t where t: "tallyValidators cfg state (CurrentEpoch state) 0 (Validators state) zeroTally = Some t"
    by blast
  note after = reportEpochMetrics_Some [OF t, of ToLowInt64 precomputeBalances g]
  have finalized: "beaconFinalizedEpoch (reportEpochMetrics cfg ToLowInt64 precomputeBalances state g)
              = float64 (uint (Epoch fc)) \<and>
            beaconFinalizedRoot (reportEpochMetrics cfg ToLowInt64 precomputeBalances state g)
              = float64 (sint (ToLowInt64 (Root fc)))"
    if "FinalizedCheckpoint state = Some fc"
    using that by (simp add: after(2,3) setCheckpoints_def Let_def)
  have current: "beaconCurrentJustifiedEpoch (reportEpochMetrics cfg ToLowInt64 precomputeBalances state g)
              = float64 (uint (Epoch cj)) \<and>
            beaconCurrentJustifiedRoot (reportEpochMetrics cfg ToLowInt64 precomputeBalances state g)
              = float64 (sint (ToLowInt64 (Root cj)))"
    if "CurrentJustifiedCheckpoint state = Some cj"
    using that by (simp add: after(4,5) setCheckpoints_def Let_def split: option.split)
  have previous: "beaconPrevJustifiedEpoch (reportEpochMetrics cfg ToLowInt64 precomputeBalances state g)
              = float64 (uint (Epoch pj)) \<and>
            beaconPrevJustifiedRoot (reportEpochMetrics cfg ToLowInt64 precomputeBalances state g)
              = float64 (sint (ToLowInt64 (Root pj)))"
    if "PreviousJustifiedCheckpoint state = Some pj"
    using that by (simp add: after(6,7) setCheckpoints_def Let_def split: option.split)
  have low: "uint (ToLowInt64 r) = int (rootInteger r) mod 2 ^ 64"
    by (simp add: ToLowInt64_def unsigned_of_nat take_bit_eq_mod of_nat_mod)
  from finalized current previous low float64_integral [of k] float64_exact [of k]
  show ?thesis by blast
qed

text \<open>
  An instance with one validator and all three checkpoints present: a nine-byte root whose
  integer is \<open>2 ^ 64 + 2\<close> is reported as 2, a root of eight bytes 255 as -1, and the
  two-byte root 1, 0 as 256.
\<close>

theorem checkpoint_gauges_witness:
  "beaconFinalizedEpoch (reportEpochMetrics \<lparr>FarFutureEpoch = - 1, WeakSubjectivityPeriod = 54000\<rparr> ToLowInt64 None
      \<lparr>CurrentEpoch = 3,
       Validators = [\<lparr>Slashed = False, ExitEpoch = - 1, ActivationEpoch = 0, EffectiveBalance = 32\<rparr>],
       BalanceAtIndex = (\<lambda>i. Some 32),
       CurrentJustifiedCheckpoint = Some \<lparr>Epoch = 2, Root = [255, 255, 255, 255, 255, 255, 255, 255]\<rparr>,
       PreviousJustifiedCheckpoint = Some \<lparr>Epoch = 1, Root = [1, 0]\<rparr>,
       FinalizedCheckpoint = Some \<lparr>Epoch = 1, Root = [1, 0, 0, 0, 0, 0, 0, 0, 2]\<rparr>,
       Eth1DataOf = None\<rparr> newGauges) = 1 \<and>
   beaconFinalizedRoot (reportEpochMetrics \<lparr>FarFutureEpoch = - 1, WeakSubjectivityPeriod = 54000\<rparr> ToLowInt64 None
      \<lparr>CurrentEpoch = 3,
       Validators = [\<lparr>Slashed = False, ExitEpoch = - 1, ActivationEpoch = 0, EffectiveBalance = 32\<rparr>],
       BalanceAtIndex = (\<lambda>i. Some 32),
       CurrentJustifiedCheckpoint = Some \<lparr>Epoch = 2, Root = [255, 255, 255, 255, 255, 255, 255, 255]\<rparr>,
       PreviousJustifiedCheckpoint = Some \<lparr>Epoch = 1, Root = [1, 0]\<rparr>,
       FinalizedCheckpoint = Some \<lparr>Epoch = 1, Root = [1, 0, 0, 0, 0, 0, 0, 0, 2]\<rparr>,
       Eth1DataOf = None\<rparr> newGauges) = 2 \<and>
   beaconCurrentJustifiedEpoch (reportEpochMetrics \<lparr>FarFutureEpoch = - 1, WeakSubjectivityPeriod = 54000\<rparr> ToLowInt64 None
      \<lparr>CurrentEpoch = 3,
       Validators = [\<lparr>Slashed = False, ExitEpoch = - 1, ActivationEpoch = 0, EffectiveBalance = 32\<rparr>],
       BalanceAtIndex = (\<lambda>i. Some 32),
       CurrentJustifiedCheckpoint = Some \<lparr>Epoch = 2, Root = [255, 255, 255, 255, 255, 255, 255, 255]\<rparr>,
       PreviousJustifiedCheckpoint = Some \<lparr>Epoch = 1, Root = [1, 0]\<rparr>,
       FinalizedCheckpoint = Some \<lparr>Epoch = 1, Root = [1, 0, 0, 0, 0, 0, 0, 0, 2]\<rparr>,
       Eth1DataOf = None\<rparr> newGauges) = 2 \<and>
   beaconCurrentJustifiedRoot (reportEpochMetrics \<lparr>FarFutureEpoch = - 1, WeakSubjectivityPeriod = 54000\<rparr> ToLowInt64 None
      \<lparr>CurrentEpoch = 3,
       Validators = [\<lparr>Slashed = False, ExitEpoch = - 1, ActivationEpoch = 0, EffectiveBalance = 32\<rparr>],
       BalanceAtIndex = (\<lambda>i. Some 32),
       CurrentJustifiedCheckpoint = Some \<lparr>Epoch = 2, Root = [255, 255, 255, 255, 255, 255, 255, 255]\<rparr>,
       PreviousJustifiedCheckpoint = Some \<lparr>Epoch = 1, Root = [1, 0]\<rparr>,
       FinalizedCheckpoint = Some \<lparr>Epoch = 1, Root = [1, 0, 0, 0, 0, 0, 0, 0, 2]\<rparr>,
       Eth1DataOf = None\<rparr> newGauges) = - 1 \<and>
   beaconPrevJustifiedRoot (reportEpochMetrics \<lparr>FarFutureEpoch = - 1, WeakSubjectivityPeriod = 54000\<rparr> ToLowInt64 None
      \<lparr>CurrentEpoch = 3,
       Validators = [\<lparr>Slashed = False, ExitEpoch = - 1, ActivationEpoch = 0, EffectiveBalance = 32\<rparr>],
       BalanceAtIndex = (\<lambda>i. Some 32),
       CurrentJustifiedCheckpoint = Some \<lparr>Epoch = 2, Root = [255, 255, 255, 255, 255, 255, 255, 255]\<rparr>,
       PreviousJustifiedCheckpoint = Some \<lparr>Epoch = 1, Root = [1, 0]\<rparr>,
       FinalizedCheckpoint = Some \<lparr>Epoch = 1, Root = [1, 0, 0, 0, 0, 0, 0, 0, 2]\<rparr>,
       Eth1DataOf = None\<rparr> newGauges) = 256"
proof -
  have roots: "sint (ToLowInt64 [1, 0, 0, 0, 0, 0, 0, 0, 2]) = 2"
      "sint (ToLowInt64 [255, 255, 255, 255, 255, 255, 255, 255]) = - 1"
      "sint (ToLowInt64 [1, 0]) = 256"
    by (simp_all add: ToLowInt64_def rootInteger_def)
  show ?thesis
    using checkpoint_gauges [of
      "\<lparr>CurrentEpoch = 3,
       Validators = [\<lparr>Slashed = False, ExitEpoch = - 1, ActivationEpoch = 0, EffectiveBalance = 32\<rparr>],
       BalanceAtIndex = (\<lambda>i. Some 32),
       CurrentJustifiedCheckpoint = Some \<lparr>Epoch = 2, Root = [255, 255, 255, 255, 255, 255, 255, 255]\<rparr>,
       PreviousJustifiedCheckpoint = Some \<lparr>Epoch = 1, Root = [1, 0]\<rparr>,
       FinalizedCheckpoint = Some \<lparr>Epoch = 1, Root = [1, 0, 0, 0, 0, 0, 0, 0, 2]\<rparr>,
       Eth1DataOf = None\<rparr>"
      "\<lparr>Epoch = 1, Root = [1, 0, 0, 0, 0, 0, 0, 0, 2]\<rparr>"
      "\<lparr>FarFutureEpoch = - 1, WeakSubjectivityPeriod = 54000\<rparr>" None newGauges
      "\<lparr>Epoch = 2, Root = [255, 255, 255, 255, 255, 255, 255, 255]\<rparr>"
      "\<lparr>Epoch = 1, Root = [1, 0]\<rparr>" "[]" 7]
    by (simp add: roots float64_def roundNearestEven_def del: One_nat_def)
qed

text \<open>
  The claim as written fails in two ways. When the balance of a validator cannot be read,
  the function returns before any checkpoint gauge is set: the finalized epoch is 5 and the
  gauge stays 0. And an epoch of \<open>2 ^ 53 + 1\<close> is reported as \<open>2 ^ 53\<close>.
\<close>

theorem checkpoint_gauges_counterexample:
  "beaconFinalizedEpoch (reportEpochMetrics \<lparr>FarFutureEpoch = - 1, WeakSubjectivityPeriod = 54000\<rparr> ToLowInt64 None
      \<lparr>CurrentEpoch = 3,
       Validators = [\<lparr>Slashed = False, ExitEpoch = - 1, ActivationEpoch = 0, EffectiveBalance = 32\<rparr>],
       BalanceAtIndex = (\<lambda>i. None),
       CurrentJustifiedCheckpoint = None, PreviousJustifiedCheckpoint = None,
       FinalizedCheckpoint = Some \<lparr>Epoch = 5, Root = [0, 0, 0, 0, 0, 0, 0, 9]\<rparr>, Eth1DataOf = None\<rparr> newGauges) = 0 \<and>
   beaconFinalizedRoot (reportEpochMetrics \<lparr>FarFutureEpoch = - 1, WeakSubjectivityPeriod = 54000\<rparr> ToLowInt64 None
      \<lparr>CurrentEpoch = 3,
       Validators = [\<lparr>Slashed = False, ExitEpoch = - 1, ActivationEpoch = 0, EffectiveBalance = 32\<rparr>],
       BalanceAtIndex = (\<lambda>i. None),
       CurrentJustifiedCheckpoint = None, PreviousJustifiedCheckpoint = None,
       FinalizedCheckpoint = Some \<lparr>Epoch = 5, Root = [0, 0, 0, 0, 0, 0, 0, 9]\<rparr>, Eth1DataOf = None\<rparr> newGauges) = 0 \<and>
   beaconFinalizedEpoch (reportEpochMetrics \<lparr>FarFutureEpoch = - 1, WeakSubjectivityPeriod = 54000\<rparr> ToLowInt64 None
      \<lparr>CurrentEpoch = 3, Validators = [], BalanceAtIndex = (\<lambda>i. None),
       CurrentJustifiedCheckpoint = None, PreviousJustifiedCheckpoint = None,
       FinalizedCheckpoint = Some \<lparr>Epoch = 9007199254740993, Root = []\<rparr>, Eth1DataOf = None\<rparr> newGauges)
     = 9007199254740992"
proof -
  have "bitLen 9007199254740993 = 54"
    by (simp add: bitLen.simps)
  then have "float64 9007199254740993 = 9007199254740992"
    by (simp add: float64_def roundNearestEven_def)
  then show ?thesis
    by (simp add: reportEpochMetrics_def setCheckpoints_def setTallies_def newGauges_def)
qed

text \<open>
  C9, as amended. For every beacon state in which the balance of every validator of the
  registry can be read and whose registry has fewer than \<open>2 ^ 53\<close> validators, the six
  reported validator_count values (Pending, Active, Exiting, Exited, Slashing, Slashed) sum
  to the number of validators in the registry; and the loop body counts each validator in
  exactly one of the six categories: the six counters together grow by one and none
  decreases.
\<close>

theorem validator_counts_partition:
  assumes "\<forall>i < length (Validators state). BalanceAtIndex state (of_nat i) \<noteq> None"
    and "length (Validators state) < 2 ^ 53"
  shows "validatorsCount (reportEpochMetrics cfg toLowInt64 precomputeBalances state g) ''Pending'' +
         validatorsCount (reportEpochMetrics cfg toLowInt64 precomputeBalances state g) ''Active'' +
         validatorsCount (reportEpochMetrics cfg toLowInt64 precomputeBalances state g) ''Exiting'' +
         validatorsCount (reportEpochMetrics cfg toLowInt64 precomputeBalances state g) ''Exited'' +
         validatorsCount (reportEpochMetrics cfg toLowInt64 precomputeBalances state g) ''Slashing'' +
         validatorsCount (reportEpochMetrics cfg toLowInt64 precomputeBalances state g) ''Slashed''
           = real (length (Validators state)) \<and>
         pendingInstances (tallyValidator cfg currentEpoch validator valBalance t) +
         activeInstances (tallyValidator cfg currentEpoch validator valBalance t) +
         exitingInstances (tallyValidator cfg currentEpoch validator valBalance t) +
         exitedInstances (tallyValidator cfg currentEpoch validator valBalance t) +
         slashingInstances (tallyValidator cfg currentEpoch validator valBalance t) +
         slashedInstances (tallyValidator cfg currentEpoch validator valBalance t)
           = pendingInstances t + activeInstances t + exitingInstances t +
             exitedInstances t + slashingInstances t + slashedInstances t + 1 \<and>
         pendingInstances t \<le> pendingInstances (tallyValidator cfg currentEpoch validator valBalance t) \<and>
         activeInstances t \<le> activeInstances (tallyValidator cfg currentEpoch validator valBalance t) \<and>
         exitingInstances t \<le> exitingInstances (tallyValidator cfg currentEpoch validator valBalance t) \<and>
         exitedInstances t \<le> exitedInstances (tallyValidator cfg currentEpoch validator valBalance t) \<and>
         slashingInstances t \<le> slashingInstances (tallyValidator cfg currentEpoch validator valBalance t) \<and>
         slashedInstances t \<le> slashedInstances (tallyValidator cfg currentEpoch validator valBalance t)"
proof -
  have "\<forall>j < length (Validators state). BalanceAtIndex state (of_nat (0 + j)) \<noteq> None"
    using assms(1) by simp
  from tallyValidators_Some [OF this, of cfg "CurrentEpoch state" zeroTally]
  obtain t' where t': "tallyValidators cfg state (CurrentEpoch state) 0 (Validators state) zeroTally = Some t'"
      "instances t' = instances zeroTally + int (length (Validators state))"
      "countsNonneg zeroTally \<longrightarrow> countsNonneg t'"
    by blast
  have total: "instances t' = int (length (Validators state))"
    using t'(2) by (simp add: instances_def zeroTally_def)
  have nonneg: "countsNonneg t'"
    using t'(3) by (simp add: countsNonneg_def zeroTally_def)
  have small: "instances t' < 2 ^ 53"
    using total assms(2) by simp
  note bound = instances_bound [OF nonneg]
  from nonneg have pos: "0 \<le> pendingInstances t'" "0 \<le> activeInstances t'"
      "0 \<le> exitingInstances t'" "0 \<le> exitedInstances t'"
      "0 \<le> slashingInstances t'" "0 \<le> slashedInstances t'"
    by (simp_all add: countsNonneg_def)
  have "float64 (pendingInstances t') + float64 (activeInstances t') +
        float64 (exitingInstances t') + float64 (exitedInstances t') +
        float64 (slashingInstances t') + float64 (slashedInstances t') = real_of_int (instances t')"
    by (simp add: float64_count [OF pos(1) bound(1) small] float64_count [OF pos(2) bound(2) small]
          float64_count [OF pos(3) bound(3) small] float64_count [OF pos(4) bound(4) small]
          float64_count [OF pos(5) bound(5) small] float64_count [OF pos(6) bound(6) small]
          instances_def)
  then have reported: "validatorsCount (reportEpochMetrics cfg toLowInt64 precomputeBalances state g) ''Pending'' +
         validatorsCount (reportEpochMetrics cfg toLowInt64 precomputeBalances state g) ''Active'' +
         validatorsCount (reportEpochMetrics cfg toLowInt64 precomputeBalances state g) ''Exiting'' +
         validatorsCount (reportEpochMetrics cfg toLowInt64 precomputeBalances state g) ''Exited'' +
         validatorsCount (reportEpochMetrics cfg toLowInt64 precomputeBalances state g) ''Slashing'' +
         validatorsCount (reportEpochMetrics cfg toLowInt64 precomputeBalances state g) ''Slashed''
           = real (length (Validators state))"
    by (simp only: reportEpochMetrics_Some(1) [OF t'(1)] validatorsCount_setTallies total of_int_of_nat_eq)
  have once: "pendingInstances (tallyValidator cfg currentEpoch validator valBalance t) +
         activeInstances (tallyValidator cfg currentEpoch validator valBalance t) +
         exitingInstances (tallyValidator cfg currentEpoch validator valBalance t) +
         exitedInstances (tallyValidator cfg currentEpoch validator valBalance t) +
         slashingInstances (tallyValidator cfg currentEpoch validator valBalance t) +
         slashedInstances (tallyValidator cfg currentEpoch validator valBalance t)
           = pendingInstances t + activeInstances t + exitingInstances t +
             exitedInstances t + slashingInstances t + slashedInstances t + 1"
    using tallyValidator_instances [of cfg currentEpoch validator valBalance t]
    by (simp only: instances_def)
  have mono: "pendingInstances t \<le> pendingInstances (tallyValidator cfg currentEpoch validator valBalance t)"
    "activeInstances t \<le> activeInstances (tallyValidator cfg currentEpoch validator valBalance t)"
    "exitingInstances t \<le> exitingInstances (tallyValidator cfg currentEpoch validator valBalance t)"
    "exitedInstances t \<le> exitedInstances (tallyValidator cfg currentEpoch validator valBalance t)"
    "slashingInstances t \<le> slashingInstances (tallyValidator cfg currentEpoch validator valBalance t)"
    "slashedInstances t \<le> slashedInstances (tallyValidator cfg currentEpoch validator valBalance t)"
    by (simp_all add: tallyValidator_def)
  from reported once mono show ?thesis
    by (intro conjI)
qed

text \<open>An instance: one slashing and one active validator.\<close>

theorem validator_counts_partition_witness:
  "validatorsCount (reportEpochMetrics \<lparr>FarFutureEpoch = - 1, WeakSubjectivityPeriod = 54000\<rparr> (\<lambda>root. 0) None
      \<lparr>CurrentEpoch = 3,
       Validators = [\<lparr>Slashed = True, ExitEpoch = 10, ActivationEpoch = 0, EffectiveBalance = 32\<rparr>,
                     \<lparr>Slashed = False, ExitEpoch = - 1, ActivationEpoch = 0, EffectiveBalance = 32\<rparr>],
       BalanceAtIndex = (\<lambda>i. Some 32),
       CurrentJustifiedCheckpoint = None, PreviousJustifiedCheckpoint = None,
       FinalizedCheckpoint = None, Eth1DataOf = None\<rparr> newGauges) ''Pending'' +
   validatorsCount (reportEpochMetrics \<lparr>FarFutureEpoch = - 1, WeakSubjectivityPeriod = 54000\<rparr> (\<lambda>root. 0) None
      \<lparr>CurrentEpoch = 3,
       Validators = [\<lparr>Slashed = True, ExitEpoch = 10, ActivationEpoch = 0, EffectiveBalance = 32\<rparr>,
                     \<lparr>Slashed = False, ExitEpoch = - 1, ActivationEpoch = 0, EffectiveBalance = 32\<rparr>],
       BalanceAtIndex = (\<lambda>i. Some 32),
       CurrentJustifiedCheckpoint = None, PreviousJustifiedCheckpoint = None,
       FinalizedCheckpoint = None, Eth1DataOf = None\<rparr> newGauges) ''Active'' +
   validatorsCount (reportEpochMetrics \<lparr>FarFutureEpoch = - 1, WeakSubjectivityPeriod = 54000\<rparr> (\<lambda>root. 0) None
      \<lparr>CurrentEpoch = 3,
       Validators = [\<lparr>Slashed = True, ExitEpoch = 10, ActivationEpoch = 0, EffectiveBalance = 32\<rparr>,
                     \<lparr>Slashed = False, ExitEpoch = - 1, ActivationEpoch = 0, EffectiveBalance = 32\<rparr>],
       BalanceAtIndex = (\<lambda>i. Some 32),
       CurrentJustifiedCheckpoint = None, PreviousJustifiedCheckpoint = None,
       FinalizedCheckpoint = None, Eth1DataOf = None\<rparr> newGauges) ''Exiting'' +
   validatorsCount (reportEpochMetrics \<lparr>FarFutureEpoch = - 1, WeakSubjectivityPeriod = 54000\<rparr> (\<lambda>root. 0) None
      \<lparr>CurrentEpoch = 3,
       Validators = [\<lparr>Slashed = True, ExitEpoch = 10, ActivationEpoch = 0, EffectiveBalance = 32\<rparr>,
                     \<lparr>Slashed = False, ExitEpoch = - 1, ActivationEpoch = 0, EffectiveBalance = 32\<rparr>],
       BalanceAtIndex = (\<lambda>i. Some 32),
       CurrentJustifiedCheckpoint = None, PreviousJustifiedCheckpoint = None,
       FinalizedCheckpoint = None, Eth1DataOf = None\<rparr> newGauges) ''Exited'' +
   validatorsCount (reportEpochMetrics \<lparr>FarFutureEpoch = - 1, WeakSubjectivityPeriod = 54000\<rparr> (\<lambda>root. 0) None
      \<lparr>CurrentEpoch = 3,
       Validators = [\<lparr>Slashed = True, ExitEpoch = 10, ActivationEpoch = 0, EffectiveBalance = 32\<rparr>,
                     \<lparr>Slashed = False, ExitEpoch = - 1, ActivationEpoch = 0, EffectiveBalance = 32\<rparr>],
       BalanceAtIndex = (\<lambda>i. Some 32),
       CurrentJustifiedCheckpoint = None, PreviousJustifiedCheckpoint = None,
       FinalizedCheckpoint = None, Eth1DataOf = None\<rparr> newGauges) ''Slashing'' +
   validatorsCount (reportEpochMetrics \<lparr>FarFutureEpoch = - 1, WeakSubjectivityPeriod = 54000\<rparr> (\<lambda>root. 0) None
      \<lparr>CurrentEpoch = 3,
       Validators = [\<lparr>Slashed = True, ExitEpoch = 10, ActivationEpoch = 0, EffectiveBalance = 32\<rparr>,
                     \<lparr>Slashed = False, ExitEpoch = - 1, ActivationEpoch = 0, EffectiveBalance = 32\<rparr>],
       BalanceAtIndex = (\<lambda>i. Some 32),
       CurrentJustifiedCheckpoint = None, PreviousJustifiedCheckpoint = None,
       FinalizedCheckpoint = None, Eth1DataOf = None\<rparr> newGauges) ''Slashed'' = 2"
  using validator_counts_partition [of
      "\<lparr>CurrentEpoch = 3,
       Validators = [\<lparr>Slashed = True, ExitEpoch = 10, ActivationEpoch = 0, EffectiveBalance = 32\<rparr>,
                     \<lparr>Slashed = False, ExitEpoch = - 1, ActivationEpoch = 0, EffectiveBalance = 32\<rparr>],
       BalanceAtIndex = (\<lambda>i. Some 32),
       CurrentJustifiedCheckpoint = None, PreviousJustifiedCheckpoint = None,
       FinalizedCheckpoint = None, Eth1DataOf = None\<rparr>"
      "\<lparr>FarFutureEpoch = - 1, WeakSubjectivityPeriod = 54000\<rparr>" "\<lambda>root. 0" None newGauges]
  by simp

text \<open>
  The claim as written fails when the balance of a validator cannot be read: the function
  returns early, the gauges keep their values, and the six counts sum to 0 for a registry
  of one validator.
\<close>

theorem validator_counts_partition_counterexample:
  "length (Validators
      \<lparr>CurrentEpoch = 3,
       Validators = [\<lparr>Slashed = False, ExitEpoch = - 1, ActivationEpoch = 0, EffectiveBalance = 32\<rparr>],
       BalanceAtIndex = (\<lambda>i. None),
       CurrentJustifiedCheckpoint = None, PreviousJustifiedCheckpoint = None,
       FinalizedCheckpoint = None, Eth1DataOf = None\<rparr>) = 1 \<and>
   reportEpochMetrics \<lparr>FarFutureEpoch = - 1, WeakSubjectivityPeriod = 54000\<rparr> (\<lambda>root. 0) None
      \<lparr>CurrentEpoch = 3,
       Validators = [\<lparr>Slashed = False, ExitEpoch = - 1, ActivationEpoch = 0, EffectiveBalance = 32\<rparr>],
       BalanceAtIndex = (\<lambda>i. None),
       CurrentJustifiedCheckpoint = None, PreviousJustifiedCheckpoint = None,
       FinalizedCheckpoint = None, Eth1DataOf = None\<rparr> newGauges = newGauges \<and>
   validatorsCount newGauges ''Pending'' + validatorsCount newGauges ''Active'' +
   validatorsCount newGauges ''Exiting'' + validatorsCount newGauges ''Exited'' +
   validatorsCount newGauges ''Slashing'' + validatorsCount newGauges ''Slashed'' = 0"
  by (simp add: reportEpochMetrics_def newGauges_def)

end
